theory Spec2Isabelle
  imports Main "HOL-Library.Word"
begin

section \<open>The MQTT status monitor that forwards alerts to Telegram\<close>

text \<open>
  A shallow embedding of \<^verbatim>\<open>src/mqtt_telegram_bridge.py\<close>. Python \<^verbatim>\<open>str\<close> values are
  modelled as their UTF-8 bytes (\<^typ>\<open>string\<close>), so the emoji of the source's literals are
  byte sequences. The module-level settings are the fields of a record \<open>config\<close>; everything
  the program does to the outside (lines printed, HTTP requests posted, broker calls) is
  recorded in a record \<open>world\<close> that every function takes and returns; an exception is the
  \<open>Inl\<close> of a sum.
\<close>

subsection \<open>Text\<close>

definition nl :: string where
  "nl = [CHR 0x0A]"

definition quote :: string where
  "quote = [CHR 0x27]"

definition red_circle :: string where
  "red_circle = [CHR 0xF0, CHR 0x9F, CHR 0x94, CHR 0xB4]"

definition warning_sign :: string where
  "warning_sign = [CHR 0xE2, CHR 0x9A, CHR 0xA0, CHR 0xEF, CHR 0xB8, CHR 0x8F]"

definition green_circle :: string where
  "green_circle = [CHR 0xF0, CHR 0x9F, CHR 0x9F, CHR 0xA2]"

definition check_mark :: string where
  "check_mark = [CHR 0xE2, CHR 0x9C, CHR 0x85]"

definition green_heart :: string where
  "green_heart = [CHR 0xF0, CHR 0x9F, CHR 0x92, CHR 0x9A]"

definition cross_mark :: string where
  "cross_mark = [CHR 0xE2, CHR 0x9D, CHR 0x8C]"

definition electric_plug :: string where
  "electric_plug = [CHR 0xF0, CHR 0x9F, CHR 0x94, CHR 0x8C]"

definition envelope :: string where
  "envelope = [CHR 0xF0, CHR 0x9F, CHR 0x93, CHR 0xA9]"

definition police_light :: string where
  "police_light = [CHR 0xF0, CHR 0x9F, CHR 0x9A, CHR 0xA8]"

definition information :: string where
  "information = [CHR 0xE2, CHR 0x84, CHR 0xB9, CHR 0xEF, CHR 0xB8, CHR 0x8F]"

definition yellow_circle :: string where
  "yellow_circle = [CHR 0xF0, CHR 0x9F, CHR 0x9F, CHR 0xA1]"

definition wrench :: string where
  "wrench = [CHR 0xF0, CHR 0x9F, CHR 0x94, CHR 0xA7]"

definition eyes :: string where
  "eyes = [CHR 0xF0, CHR 0x9F, CHR 0x91, CHR 0x80]"

definition stop_button :: string where
  "stop_button = [CHR 0xE2, CHR 0x8F, CHR 0xB9, CHR 0xEF, CHR 0xB8, CHR 0x8F]"

definition stop_sign :: string where
  "stop_sign = [CHR 0xF0, CHR 0x9F, CHR 0x9B, CHR 0x91]"

text \<open>
  \<^verbatim>\<open>bytes.decode('utf-8')\<close> in strict mode: the bytes must be well-formed UTF-8 (no
  overlong form, no surrogate, nothing above U+10FFFF); otherwise it raises
  \<^verbatim>\<open>UnicodeDecodeError\<close>. The decoded text is the same byte sequence.
\<close>

definition continuation :: "nat \<Rightarrow> bool" where
  "continuation b = (0x80 \<le> b \<and> b \<le> 0xBF)"

fun utf8_valid :: "nat list \<Rightarrow> bool" where
  "utf8_valid [] = True"
| "utf8_valid (b0 # bs) =
     (if b0 < 0x80 then utf8_valid bs
      else if 0xC2 \<le> b0 \<and> b0 \<le> 0xDF then
        (case bs of b1 # r \<Rightarrow> continuation b1 \<and> utf8_valid r | _ \<Rightarrow> False)
      else if 0xE0 \<le> b0 \<and> b0 \<le> 0xEF then
        (case bs of b1 # b2 # r \<Rightarrow>
           (if b0 = 0xE0 then 0xA0 \<le> b1 \<and> b1 \<le> 0xBF
            else if b0 = 0xED then 0x80 \<le> b1 \<and> b1 \<le> 0x9F
            else continuation b1)
           \<and> continuation b2 \<and> utf8_valid r
         | _ \<Rightarrow> False)
      else if 0xF0 \<le> b0 \<and> b0 \<le> 0xF4 then
        (case bs of b1 # b2 # b3 # r \<Rightarrow>
           (if b0 = 0xF0 then 0x90 \<le> b1 \<and> b1 \<le> 0xBF
            else if b0 = 0xF4 then 0x80 \<le> b1 \<and> b1 \<le> 0x8F
            else continuation b1)
           \<and> continuation b2 \<and> continuation b3 \<and> utf8_valid r
         | _ \<Rightarrow> False)
      else False)"

definition decode_utf8 :: "string \<Rightarrow> string option" where
  "decode_utf8 bs = (if utf8_valid (map of_char bs) then Some bs else None)"

subsection \<open>Values and exceptions\<close>

text \<open>
  What \<^verbatim>\<open>json.loads\<close> returns: \<^verbatim>\<open>None\<close>, a bool, an int, a float (carried as its
  IEEE-754 bits), a str, a list, or a dict (carried as its items; a lookup takes the
  first item with the key). A str of the document can hold a lone surrogate (the JSON
  escape of U+D800 gives one), which UTF-8 cannot encode: it is carried as the three bytes
  \<^verbatim>\<open>ED A0 80\<close> to \<^verbatim>\<open>ED BF BF\<close>, which \<open>utf8_valid\<close> refuses.
\<close>

datatype json =
    JNull
  | JBool bool
  | JInt int
  | JFloat "64 word"
  | JStr string
  | JArr "json list"
  | JObj "(string \<times> json) list"

text \<open>The exceptions of the program; those whose text the program prints carry it.\<close>

datatype exn =
    UnicodeDecodeError
  | UnicodeEncodeError string
  | JSONDecodeError
  | AttributeError string
  | OtherException string

text \<open>
  \<^verbatim>\<open>str(e)\<close>. \<open>UnicodeDecodeError\<close> is raised outside every \<^verbatim>\<open>try\<close> and
  \<open>JSONDecodeError\<close> is caught by a clause that does not read it, so their text is never
  asked for.
\<close>

fun exn_str :: "exn \<Rightarrow> string" where
  "exn_str (AttributeError m) = m"
| "exn_str (OtherException m) = m"
| "exn_str (UnicodeEncodeError m) = m"
| "exn_str UnicodeDecodeError = []"
| "exn_str JSONDecodeError = []"

text \<open>The name Python gives the type of a value, as it appears in an \<^verbatim>\<open>AttributeError\<close>.\<close>

fun type_name :: "json \<Rightarrow> string" where
  "type_name JNull = ''NoneType''"
| "type_name (JBool b) = ''bool''"
| "type_name (JInt n) = ''int''"
| "type_name (JFloat x) = ''float''"
| "type_name (JStr s) = ''str''"
| "type_name (JArr xs) = ''list''"
| "type_name (JObj kvs) = ''dict''"

definition no_attribute :: "json \<Rightarrow> string \<Rightarrow> exn" where
  "no_attribute v a =
     AttributeError (quote @ type_name v @ quote @ '' object has no attribute ''
                     @ quote @ a @ quote)"

text \<open>\<^verbatim>\<open>d.get(key, default)\<close> on a dict.\<close>

definition dict_get :: "(string \<times> json) list \<Rightarrow> string \<Rightarrow> json \<Rightarrow> json" where
  "dict_get d k dflt = (case map_of d k of None \<Rightarrow> dflt | Some v \<Rightarrow> v)"

text \<open>
  \<^verbatim>\<open>f"{v}"\<close>: a str is inserted as it is; any other value through its \<^verbatim>\<open>repr\<close>, which
  is Python's and is a parameter here.
\<close>

definition py_str :: "(json \<Rightarrow> string) \<Rightarrow> json \<Rightarrow> string" where
  "py_str repr v = (case v of JStr s \<Rightarrow> s | _ \<Rightarrow> repr v)"

text \<open>The truth value of the \<^verbatim>\<open>parse_mode\<close> argument: \<^verbatim>\<open>None\<close> and \<^verbatim>\<open>""\<close> are false.\<close>

definition truthy :: "string option \<Rightarrow> bool" where
  "truthy p = (case p of None \<Rightarrow> False | Some s \<Rightarrow> s \<noteq> [])"

text \<open>\<^verbatim>\<open>f"{x}"\<close> of a setting read with \<^verbatim>\<open>os.getenv\<close>, which is \<^verbatim>\<open>None\<close> when unset.\<close>

definition str_opt :: "string option \<Rightarrow> string" where
  "str_opt p = (case p of None \<Rightarrow> ''None'' | Some s \<Rightarrow> s)"

subsection \<open>Configuration, outside world, libraries\<close>

record config =
  mqtt_broker :: string
  mqtt_port :: int
  mqtt_topic_status :: string
  mqtt_topic_alive :: string
  telegram_bot_token :: "string option"
  telegram_chat_id :: "string option"
  monitor_alive :: bool
  notify_online :: bool

text \<open>
  One call \<^verbatim>\<open>requests.post(url, json=payload, timeout=10)\<close>: the keys of \<^verbatim>\<open>payload\<close>
  are the fields (\<open>parse_mode = None\<close> when the key is not there).
\<close>

record request =
  url :: string
  chat_id :: "string option"
  message_text :: string
  parse_mode :: "string option"
  timeout :: nat

text \<open>
  What \<^verbatim>\<open>requests.post\<close> followed by \<^verbatim>\<open>raise_for_status\<close> does: it returns, raises a
  \<^verbatim>\<open>requests.exceptions.RequestException\<close> (timeout, connection error, HTTP error
  status) with the given text, or raises something else.
\<close>

datatype outcome = Success | RequestException string | OtherFailure string

record world =
  printed :: "string list"
  sent :: "request list"
  connects :: "(string \<times> int \<times> nat) list"
  disconnects :: nat

text \<open>
  The libraries' behaviour is a parameter: the parser, \<^verbatim>\<open>repr\<close>, the text of the
  \<^verbatim>\<open>UnicodeEncodeError\<close> that \<^verbatim>\<open>print\<close> raises for a line, the answer of the
  Telegram endpoint to the \<open>n\<close>-th request of the run, and the answer of the broker to
  \<^verbatim>\<open>connect\<close> (\<open>None\<close> when it succeeds, the text of the exception when it raises).
\<close>

record libs =
  json_loads :: "string \<Rightarrow> json option"
  py_repr :: "json \<Rightarrow> string"
  encode_error_text :: "string \<Rightarrow> string"
  requests_post :: "nat \<Rightarrow> request \<Rightarrow> outcome"
  client_connect :: "string option"

text \<open>
  \<^verbatim>\<open>print\<close> writes to a UTF-8 standard output. \<open>py_print\<close> is the \<^verbatim>\<open>print\<close> of a
  line that cannot hold a lone surrogate: one made of the source's literals, the topic,
  the decoded payload and the text of an exception. \<open>print_values\<close> is the
  \<^verbatim>\<open>print\<close> of a line that inserts values read from the parsed document: when the line
  cannot be encoded it raises \<^verbatim>\<open>UnicodeEncodeError\<close> and writes nothing.
\<close>

definition py_print :: "string \<Rightarrow> world \<Rightarrow> world" where
  "py_print s w = w\<lparr>printed := printed w @ [s]\<rparr>"

definition encodable :: "string \<Rightarrow> bool" where
  "encodable s = utf8_valid (map of_char s)"

definition print_values :: "libs \<Rightarrow> string \<Rightarrow> world \<Rightarrow> (exn + unit) \<times> world" where
  "print_values lib s w =
     (if encodable s then (Inr (), py_print s w)
      else (Inl (UnicodeEncodeError (encode_error_text lib s)), w))"

text \<open>One statement after another: the second runs when the first has not raised.\<close>

definition and_then ::
  "(exn + unit) \<times> world \<Rightarrow> (world \<Rightarrow> (exn + unit) \<times> world) \<Rightarrow> (exn + unit) \<times> world" where
  "and_then r f = (case r of (Inl e, w) \<Rightarrow> (Inl e, w) | (Inr u, w) \<Rightarrow> f w)"

definition post :: "libs \<Rightarrow> request \<Rightarrow> world \<Rightarrow> outcome \<times> world" where
  "post lib r w = (requests_post lib (length (sent w)) r, w\<lparr>sent := sent w @ [r]\<rparr>)"

subsection \<open>Telegram\<close>

text \<open>Lines 78 to 86: the address and the payload of the request.\<close>

definition telegram_request :: "config \<Rightarrow> string \<Rightarrow> string option \<Rightarrow> request" where
  "telegram_request cfg message pm =
     \<lparr>url = ''https://api.telegram.org/bot'' @ str_opt (telegram_bot_token cfg) @ ''/sendMessage'',
      chat_id = telegram_chat_id cfg,
      message_text = message,
      parse_mode = (if truthy pm then pm else None),
      timeout = 10\<rparr>"

text \<open>
  \<^verbatim>\<open>send_telegram_message\<close>. The first \<^verbatim>\<open>except\<close> names
  \<^verbatim>\<open>requests.exceptions.RequestException\<close>, so any other exception of the first attempt
  leaves the function; the second \<^verbatim>\<open>except\<close> is bare.
\<close>

definition send_telegram_message ::
  "config \<Rightarrow> libs \<Rightarrow> string \<Rightarrow> string option \<Rightarrow> world \<Rightarrow> (exn + bool) \<times> world" where
  "send_telegram_message cfg lib message pm w =
     (let payload = telegram_request cfg message pm
      in case post lib payload w of
           (Success, w1) \<Rightarrow> (Inr True, w1)
         | (OtherFailure m, w1) \<Rightarrow> (Inl (OtherException m), w1)
         | (RequestException m, w1) \<Rightarrow>
             (let w2 = py_print (''Failed to send Telegram message: '' @ m) w1
              in if truthy pm then
                   (let w3 = py_print ''Retrying without formatting...'' w2
                    in case post lib (payload\<lparr>parse_mode := None\<rparr>) w3 of
                         (Success, w4) \<Rightarrow> (Inr True, w4)
                       | (_, w4) \<Rightarrow> (Inr False, w4))
                 else (Inr False, w2)))"

definition format_offline_message :: "string \<Rightarrow> string \<Rightarrow> string \<Rightarrow> string" where
  "format_offline_message device_id reason timestamp =
     red_circle @ '' <b>Device Offline Alert</b>'' @ nl @ nl
     @ ''<b>Device:</b> <code>'' @ device_id @ ''</code>'' @ nl
     @ ''<b>Status:</b> Offline'' @ nl
     @ ''<b>Reason:</b> '' @ reason @ nl
     @ ''<b>Time:</b> '' @ timestamp @ nl @ nl
     @ warning_sign @ '' The device has lost connection unexpectedly.''"

definition format_online_message :: "string \<Rightarrow> string \<Rightarrow> string" where
  "format_online_message device_id timestamp =
     green_circle @ '' <b>Device Online</b>'' @ nl @ nl
     @ ''<b>Device:</b> <code>'' @ device_id @ ''</code>'' @ nl
     @ ''<b>Status:</b> Online'' @ nl
     @ ''<b>Time:</b> '' @ timestamp @ nl @ nl
     @ check_mark @ '' The device has reconnected successfully.''"

text \<open>The two messages that \<^verbatim>\<open>on_message\<close> builds in place.\<close>

definition motion_confirmed_message :: "string \<Rightarrow> string \<Rightarrow> string" where
  "motion_confirmed_message device_id device_timestamp =
     police_light @ '' <b>Motion Detection Alert</b>'' @ nl @ nl
     @ ''<b>Device:</b> <code>'' @ device_id @ ''</code>'' @ nl
     @ ''<b>Status:</b> Motion confirmed'' @ nl
     @ ''<b>Time:</b> '' @ device_timestamp @ nl @ nl
     @ warning_sign @ '' Unauthorized motion detected in monitored area!''"

definition motion_detected_message :: "string \<Rightarrow> string \<Rightarrow> string" where
  "motion_detected_message device_id device_timestamp =
     yellow_circle @ '' <b>Motion Detected</b>'' @ nl @ nl
     @ ''<b>Device:</b> <code>'' @ device_id @ ''</code>'' @ nl
     @ ''<b>Status:</b> Motion detected (awaiting confirmation)'' @ nl
     @ ''<b>Time:</b> '' @ device_timestamp @ nl @ nl
     @ ''Monitoring for continued movement...''"

subsection \<open>The message callback\<close>

record mqtt_message =
  topic :: string
  payload :: string

text \<open>The lines \<^verbatim>\<open>on_message\<close> prints, by the line of the source that prints them.\<close>

definition received_line :: "string \<Rightarrow> string" where
  \<comment> \<open>line 219\<close>
  "received_line tp = nl @ envelope @ '' Message received on '' @ quote @ tp @ quote @ '':''"

definition payload_line :: "string \<Rightarrow> string" where
  \<comment> \<open>line 220\<close>
  "payload_line p = ''   Payload: '' @ p"

definition offline_line :: "string \<Rightarrow> string \<Rightarrow> string" where
  \<comment> \<open>line 232\<close>
  "offline_line device_id reason =
     red_circle @ '' Device offline detected: '' @ device_id @ '' - Reason: '' @ reason"

definition online_line :: "string \<Rightarrow> string" where
  \<comment> \<open>line 242\<close>
  "online_line device_id = green_circle @ '' Device online detected: '' @ device_id"

definition motion_confirmed_line :: "string \<Rightarrow> string" where
  \<comment> \<open>line 252\<close>
  "motion_confirmed_line device_id = police_light @ '' Motion detection confirmed: '' @ device_id"

definition no_motion_line :: "string \<Rightarrow> string" where
  \<comment> \<open>line 268\<close>
  "no_motion_line device_id = information @ '' No motion detected: '' @ device_id"

definition motion_detected_line :: "string \<Rightarrow> string" where
  \<comment> \<open>line 279\<close>
  "motion_detected_line device_id = yellow_circle @ '' Initial motion detection: '' @ device_id"

definition unknown_status_line :: "string \<Rightarrow> string \<Rightarrow> string" where
  \<comment> \<open>line 296\<close>
  "unknown_status_line status device_id =
     warning_sign @ '' Unknown status received: '' @ quote @ status @ quote
     @ '' from '' @ device_id"

definition full_payload_line :: "string \<Rightarrow> string" where
  \<comment> \<open>line 297\<close>
  "full_payload_line p = ''   Full payload: '' @ p"

definition heartbeat_line :: "string \<Rightarrow> string \<Rightarrow> string" where
  \<comment> \<open>line 305\<close>
  "heartbeat_line device_id uptime_sec =
     green_heart @ '' Device heartbeat: '' @ device_id @ '' - Uptime: '' @ uptime_sec @ ''s''"

definition parse_failure_line :: "string \<Rightarrow> string" where
  \<comment> \<open>line 313\<close>
  "parse_failure_line p = warning_sign @ '' Failed to parse JSON payload: '' @ p"

definition error_line :: "string \<Rightarrow> string" where
  \<comment> \<open>line 315\<close>
  "error_line e = cross_mark @ '' Error processing message: '' @ e"

text \<open>
  The pattern \<^verbatim>\<open>if send_telegram_message(message): print(ok) else: print(failed)\<close>, which
  every notifying branch ends with; \<^verbatim>\<open>parse_mode\<close> has its default \<^verbatim>\<open>"HTML"\<close>.
\<close>

definition send_and_report ::
  "config \<Rightarrow> libs \<Rightarrow> string \<Rightarrow> string \<Rightarrow> world \<Rightarrow> (exn + unit) \<times> world" where
  "send_and_report cfg lib message ok_line w =
     (case send_telegram_message cfg lib message (Some ''HTML'') w of
        (Inl e, w1) \<Rightarrow> (Inl e, w1)
      | (Inr ok, w1) \<Rightarrow>
          (Inr (), py_print (if ok then check_mark @ ok_line
                             else cross_mark @ '' Failed to send Telegram notification'') w1))"

text \<open>The status topic, once \<^verbatim>\<open>data\<close> is known to be a dict \<open>d\<close> (lines 227 to 297).\<close>

definition on_status ::
  "config \<Rightarrow> libs \<Rightarrow> string \<Rightarrow> string \<Rightarrow> (string \<times> json) list \<Rightarrow> world \<Rightarrow> (exn + unit) \<times> world" where
  "on_status cfg lib timestamp p d w =
     (let device_id = py_str (py_repr lib) (dict_get d ''device_id'' (JStr ''Unknown''));
          status = dict_get d ''status'' (JStr ''Unknown'')
      in if status = JStr ''offline'' then
           (let reason = py_str (py_repr lib) (dict_get d ''reason'' (JStr ''unknown''))
            in and_then (print_values lib (offline_line device_id reason) w)
                 (send_and_report cfg lib (format_offline_message device_id reason timestamp)
                    '' Offline notification sent to Telegram''))
         else if status = JStr ''online'' \<and> notify_online cfg then
           and_then (print_values lib (online_line device_id) w)
             (send_and_report cfg lib (format_online_message device_id timestamp)
                '' Online notification sent to Telegram'')
         else if status = JStr ''Motion detection confirmed'' then
           (let device_timestamp = py_str (py_repr lib) (dict_get d ''timestamp'' (JStr timestamp))
            in and_then (print_values lib (motion_confirmed_line device_id) w)
                 (send_and_report cfg lib (motion_confirmed_message device_id device_timestamp)
                    '' Motion alert sent to Telegram''))
         else if status = JStr ''No motion'' then
           print_values lib (no_motion_line device_id) w
         else if status = JStr ''Motion detected'' then
           (let device_timestamp = py_str (py_repr lib) (dict_get d ''timestamp'' (JStr timestamp))
            in and_then (print_values lib (motion_detected_line device_id) w)
                 (send_and_report cfg lib (motion_detected_message device_id device_timestamp)
                    '' Initial motion alert sent to Telegram''))
         else
           and_then (print_values lib (unknown_status_line (py_str (py_repr lib) status) device_id) w)
             (\<lambda>w1. (Inr (), py_print (full_payload_line p) w1)))"

text \<open>
  The alive topic, once \<^verbatim>\<open>data\<close> is known to be a dict \<open>d\<close> (lines 301 to 310);
  \<^verbatim>\<open>rtc_time\<close> is read and not used.
\<close>

definition on_alive :: "libs \<Rightarrow> (string \<times> json) list \<Rightarrow> world \<Rightarrow> (exn + unit) \<times> world" where
  "on_alive lib d w =
     (let device_id = py_str (py_repr lib) (dict_get d ''device_id'' (JStr ''Unknown''));
          rtc_time = py_str (py_repr lib) (dict_get d ''rtc_time'' (JStr ''Unknown''));
          uptime_sec = py_str (py_repr lib) (dict_get d ''uptime_sec'' (JInt 0))
      in print_values lib (heartbeat_line device_id uptime_sec) w)"

text \<open>
  The body of the \<^verbatim>\<open>try\<close> (lines 223 to 310). \<^verbatim>\<open>data.get\<close> raises
  \<^verbatim>\<open>AttributeError\<close> at the first field access when \<^verbatim>\<open>data\<close> is not a dict.
\<close>

definition on_message_try ::
  "config \<Rightarrow> libs \<Rightarrow> string \<Rightarrow> string \<Rightarrow> string \<Rightarrow> world \<Rightarrow> (exn + unit) \<times> world" where
  "on_message_try cfg lib timestamp tp p w =
     (case json_loads lib p of
        None \<Rightarrow> (Inl JSONDecodeError, w)
      | Some data \<Rightarrow>
          if tp = mqtt_topic_status cfg then
            (case data of
               JObj d \<Rightarrow> on_status cfg lib timestamp p d w
             | _ \<Rightarrow> (Inl (no_attribute data ''get''), w))
          else if tp = mqtt_topic_alive cfg \<and> monitor_alive cfg then
            (case data of
               JObj d \<Rightarrow> on_alive lib d w
             | _ \<Rightarrow> (Inl (no_attribute data ''get''), w))
          else (Inr (), w))"

text \<open>Lines 219 and 220: the two lines printed for every message that decodes.\<close>

definition announce :: "string \<Rightarrow> string \<Rightarrow> world \<Rightarrow> world" where
  "announce tp p w = py_print (payload_line p) (py_print (received_line tp) w)"

text \<open>
  The two \<^verbatim>\<open>except\<close> clauses of \<^verbatim>\<open>on_message\<close> (lines 312 to 315), applied to what
  the body of the \<^verbatim>\<open>try\<close> did: \<^verbatim>\<open>json.JSONDecodeError\<close> first, then \<^verbatim>\<open>Exception\<close>.
\<close>

definition except_clauses :: "string \<Rightarrow> (exn + unit) \<times> world \<Rightarrow> (exn + unit) \<times> world" where
  "except_clauses p r =
     (case r of
        (Inr u, w) \<Rightarrow> (Inr (), w)
      | (Inl e, w) \<Rightarrow>
          if e = JSONDecodeError then (Inr (), py_print (parse_failure_line p) w)
          else (Inr (), py_print (error_line (exn_str e)) w))"

text \<open>
  \<^verbatim>\<open>on_message\<close>; \<open>timestamp\<close> is what \<^verbatim>\<open>datetime.now().strftime(...)\<close> returns at
  line 217. The decoding at line 216 comes before the \<^verbatim>\<open>try\<close>.
\<close>

definition on_message ::
  "config \<Rightarrow> libs \<Rightarrow> string \<Rightarrow> mqtt_message \<Rightarrow> world \<Rightarrow> (exn + unit) \<times> world" where
  "on_message cfg lib timestamp msg w =
     (case decode_utf8 (payload msg) of
        None \<Rightarrow> (Inl UnicodeDecodeError, w)
      | Some p \<Rightarrow>
          except_clauses p
            (on_message_try cfg lib timestamp (topic msg) p (announce (topic msg) p w)))"

subsection \<open>The entry point\<close>

text \<open>\<^verbatim>\<open>str\<close> of an int, for the port in \<^verbatim>\<open>f"...{MQTT_PORT}..."\<close>.\<close>

fun digits :: "nat \<Rightarrow> string" where
  "digits n =
     (if n < 10 then [char_of (48 + n)] else digits (n div 10) @ [char_of (48 + n mod 10)])"

definition str_int :: "int \<Rightarrow> string" where
  "str_int i = (if i < 0 then ''-'' @ digits (nat (- i)) else digits (nat i))"

text \<open>
  \<^verbatim>\<open>client.loop_forever()\<close> with the callback \<^verbatim>\<open>on_message\<close>: the messages that arrive,
  each with the clock's reading when it is handled, are handed to the callback in turn. An
  exception that leaves the callback leaves the loop (the client is created without
  \<^verbatim>\<open>suppress_exceptions\<close>). When the arrivals are used up, the operator's Ctrl+C ends the
  loop: that is the result \<open>Inr ()\<close>.
\<close>

fun loop_forever ::
  "config \<Rightarrow> libs \<Rightarrow> (string \<times> mqtt_message) list \<Rightarrow> world \<Rightarrow> (exn + unit) \<times> world" where
  "loop_forever cfg lib [] w = (Inr (), w)"
| "loop_forever cfg lib ((t, m) # rest) w =
     (case on_message cfg lib t m w of
        (Inl e, w1) \<Rightarrow> (Inl e, w1)
      | (Inr u, w1) \<Rightarrow> loop_forever cfg lib rest w1)"

definition banner :: "world \<Rightarrow> world" where
  "banner w =
     py_print (replicate 60 (CHR ''=''))
       (py_print ''MQTT Last Will and Testament (LWT) to Telegram Monitor''
          (py_print (replicate 60 (CHR ''='')) w))"

text \<open>The handler of \<^verbatim>\<open>KeyboardInterrupt\<close> (lines 369 to 377); \<open>t\<close> is the clock's reading.\<close>

definition shutdown :: "config \<Rightarrow> libs \<Rightarrow> string \<Rightarrow> world \<Rightarrow> (exn + unit) \<times> world" where
  "shutdown cfg lib t w =
     (let w1 = py_print (nl @ nl @ stop_button @ '' Shutting down...'') w;
          shutdown_msg = stop_sign @ '' <b>MQTT LWT Monitor Stopped</b>'' @ nl @ nl @ ''Time: '' @ t
      in case send_telegram_message cfg lib shutdown_msg (Some ''HTML'') w1 of
           (Inl e, w2) \<Rightarrow> (Inl e, w2)
         | (Inr ok, w2) \<Rightarrow>
             (Inr (), py_print (check_mark @ '' Disconnected cleanly'')
                        (w2\<lparr>disconnects := Suc (disconnects w2)\<rparr>)))"

text \<open>
  \<^verbatim>\<open>main\<close>; \<open>arrivals\<close> are the messages the broker delivers during the run and
  \<open>stop_time\<close> the clock's reading at shutdown.
\<close>

definition main ::
  "config \<Rightarrow> libs \<Rightarrow> (string \<times> mqtt_message) list \<Rightarrow> string \<Rightarrow> world \<Rightarrow> (exn + unit) \<times> world" where
  "main cfg lib arrivals stop_time w =
     (let w1 = banner w
      in if telegram_bot_token cfg = Some ''YOUR_BOT_TOKEN_HERE'' then
           (Inr (), py_print ''   Get your bot token from @BotFather on Telegram''
                      (py_print (cross_mark @ '' ERROR: Please configure TELEGRAM_BOT_TOKEN'') w1))
         else if telegram_chat_id cfg = Some ''YOUR_CHAT_ID_HERE'' then
           (Inr (), py_print ''   Visit: https://api.telegram.org/bot<TOKEN>/getUpdates''
                      (py_print (cross_mark @ '' ERROR: Please configure TELEGRAM_CHAT_ID'') w1))
         else
           (let w2 = py_print (nl @ wrench @ '' Initializing MQTT client...'') w1;
                w3 = py_print (electric_plug @ '' Connecting to '' @ mqtt_broker cfg @ '':''
                               @ str_int (mqtt_port cfg) @ ''...'') w2;
                w4 = w3\<lparr>connects := connects w3 @ [(mqtt_broker cfg, mqtt_port cfg, 60)]\<rparr>
            in case client_connect lib of
                 Some m \<Rightarrow> (Inr (), py_print (cross_mark @ '' Connection failed: '' @ m) w4)
               | None \<Rightarrow>
                   (let w5 = py_print (nl @ eyes
                                       @ '' Monitoring LWT messages... (Press Ctrl+C to exit)'' @ nl) w4;
                        w6 = py_print (replicate 60 (CHR ''-'')) w5
                    in case loop_forever cfg lib arrivals w6 of
                         (Inl e, w7) \<Rightarrow> (Inl e, w7)
                       | (Inr u, w7) \<Rightarrow> shutdown cfg lib stop_time w7)))"

subsection \<open>Concrete inputs\<close>

text \<open>
  The settings of the source (lines 50 to 61) with the two credentials set, a fragment of
  \<^verbatim>\<open>json.loads\<close> and of \<^verbatim>\<open>repr\<close> on the payloads below, and an empty outside world.
\<close>

definition example_cfg :: config where
  "example_cfg =
     \<lparr>mqtt_broker = ''broker.hivemq.com'', mqtt_port = 1883,
      mqtt_topic_status = ''devices/IoT_device_365/status'',
      mqtt_topic_alive = ''devices/IoT_device_365/alive'',
      telegram_bot_token = Some ''123456:ABC'', telegram_chat_id = Some ''987654'',
      monitor_alive = True, notify_online = True\<rparr>"

definition offline_payload :: string where
  \<open>offline_payload =
     ''{"device_id":"sensor1","status":"offline","reason":"power loss","timestamp":"2020-01-01 00:00:00"}''\<close>

definition online_payload :: string where
  \<open>online_payload = ''{"device_id":"sensor1","status":"online"}''\<close>

definition capital_payload :: string where
  \<open>capital_payload = ''{"device_id":"x","status":"Offline"}''\<close>

definition no_status_payload :: string where
  \<open>no_status_payload = ''{"device_id":"x"}''\<close>

definition no_motion_payload :: string where
  \<open>no_motion_payload = ''{"device_id":"x","status":"No motion"}''\<close>

definition confirmed_payload :: string where
  \<open>confirmed_payload = ''{"device_id":"cam","status":"Motion detection confirmed"}''\<close>

definition detected_payload :: string where
  \<open>detected_payload =
     ''{"device_id":"cam","status":"Motion detected","timestamp":"2024-05-05 11:59:58"}''\<close>

definition alive_payload :: string where
  \<open>alive_payload = ''{"device_id":"y","rtc_time":"12:00:00","uptime_sec":3725}''\<close>

definition number_payload :: string where
  "number_payload = ''42''"

definition gateway_payload :: string where
  \<open>gateway_payload = ''{"device_id":"gw7","status":"online"}''\<close>

text \<open>
  Two payloads whose device id is the escape of the lone surrogate U+D800, the str that
  \<^verbatim>\<open>json.loads\<close> makes of it, and what \<^verbatim>\<open>str\<close> gives for the
  \<^verbatim>\<open>UnicodeEncodeError\<close> of the two lines that insert it.
\<close>

definition lone_surrogate :: string where
  "lone_surrogate = [CHR 0xED, CHR 0xA0, CHR 0x80]"

definition surrogate_payload :: string where
  \<open>surrogate_payload = ''{"device_id":"'' @ [CHR 0x5C] @ ''ud800"}''\<close>

definition surrogate_offline_payload :: string where
  \<open>surrogate_offline_payload =
     ''{"device_id":"'' @ [CHR 0x5C] @ ''ud800","status":"offline"}''\<close>

definition surrogate_error :: "nat \<Rightarrow> string" where
  "surrogate_error pos =
     quote @ ''utf-8'' @ quote @ '' codec can'' @ quote @ ''t encode character '' @ quote
     @ [CHR 0x5C] @ ''ud800'' @ quote @ '' in position '' @ digits pos
     @ '': surrogates not allowed''"

definition example_encode_error :: "string \<Rightarrow> string" where
  "example_encode_error s =
     (if s = unknown_status_line ''Unknown'' lone_surrogate then surrogate_error 43
      else if s = offline_line lone_surrogate ''unknown'' then surrogate_error 27
      else [])"

definition example_loads :: "string \<Rightarrow> json option" where
  "example_loads p =
     (if p = offline_payload then
        Some (JObj [(''device_id'', JStr ''sensor1''), (''status'', JStr ''offline''),
                    (''reason'', JStr ''power loss''), (''timestamp'', JStr ''2020-01-01 00:00:00'')])
      else if p = online_payload then
        Some (JObj [(''device_id'', JStr ''sensor1''), (''status'', JStr ''online'')])
      else if p = capital_payload then
        Some (JObj [(''device_id'', JStr ''x''), (''status'', JStr ''Offline'')])
      else if p = no_status_payload then
        Some (JObj [(''device_id'', JStr ''x'')])
      else if p = no_motion_payload then
        Some (JObj [(''device_id'', JStr ''x''), (''status'', JStr ''No motion'')])
      else if p = confirmed_payload then
        Some (JObj [(''device_id'', JStr ''cam''), (''status'', JStr ''Motion detection confirmed'')])
      else if p = detected_payload then
        Some (JObj [(''device_id'', JStr ''cam''), (''status'', JStr ''Motion detected''),
                    (''timestamp'', JStr ''2024-05-05 11:59:58'')])
      else if p = alive_payload then
        Some (JObj [(''device_id'', JStr ''y''), (''rtc_time'', JStr ''12:00:00''),
                    (''uptime_sec'', JInt 3725)])
      else if p = number_payload then Some (JInt 42)
      else if p = gateway_payload then
        Some (JObj [(''device_id'', JStr ''gw7''), (''status'', JStr ''online'')])
      else if p = surrogate_payload then
        Some (JObj [(''device_id'', JStr lone_surrogate)])
      else if p = surrogate_offline_payload then
        Some (JObj [(''device_id'', JStr lone_surrogate), (''status'', JStr ''offline'')])
      else None)"

definition example_repr :: "json \<Rightarrow> string" where
  "example_repr v = (case v of JInt n \<Rightarrow> str_int n | _ \<Rightarrow> [])"

text \<open>A Telegram endpoint that answers every request the same way.\<close>

definition example_lib :: "outcome \<Rightarrow> libs" where
  "example_lib answer =
     \<lparr>json_loads = example_loads, py_repr = example_repr,
      encode_error_text = example_encode_error,
      requests_post = (\<lambda>n r. answer), client_connect = None\<rparr>"

definition w0 :: world where
  "w0 = \<lparr>printed = [], sent = [], connects = [], disconnects = 0\<rparr>"

definition status_message :: "string \<Rightarrow> mqtt_message" where
  "status_message p = \<lparr>topic = ''devices/IoT_device_365/status'', payload = p\<rparr>"

definition alive_message :: "string \<Rightarrow> mqtt_message" where
  "alive_message p = \<lparr>topic = ''devices/IoT_device_365/alive'', payload = p\<rparr>"

section \<open>Properties\<close>

subsection \<open>What each step does to the outside world\<close>

lemma sent_py_print [simp]: "sent (py_print s w) = sent w"
  by (simp add: py_print_def)

lemma printed_py_print [simp]: "printed (py_print s w) = printed w @ [s]"
  by (simp add: py_print_def)

lemma sent_announce [simp]: "sent (announce tp p w) = sent w"
  by (simp add: announce_def)

lemma printed_announce: "printed (announce tp p w) = printed w @ [received_line tp, payload_line p]"
  by (simp add: announce_def)

lemma print_values_encodable [simp]:
  "encodable s \<Longrightarrow> print_values lib s w = (Inr (), py_print s w)"
  by (simp add: print_values_def)

lemma print_values_raises [simp]:
  "\<not> encodable s \<Longrightarrow>
     print_values lib s w = (Inl (UnicodeEncodeError (encode_error_text lib s)), w)"
  by (simp add: print_values_def)

lemma and_then_simps [simp]:
  "and_then (Inr u, w) f = f w"
  "and_then (Inl e, w) f = (Inl e, w)"
  by (simp_all add: and_then_def)

lemma except_clauses_encode_error [simp]:
  "except_clauses p (Inl (UnicodeEncodeError m), w) = (Inr (), py_print (error_line m) w)"
  by (simp add: except_clauses_def)

lemma truthy_html [simp]: "truthy (Some ''HTML'')"
  by (simp add: truthy_def)

lemma fst_except_clauses [simp]: "fst (except_clauses p r) = Inr ()"
  by (simp add: except_clauses_def split: prod.splits sum.splits)

lemma sent_except_clauses [simp]: "sent (snd (except_clauses p r)) = sent (snd r)"
  by (simp add: except_clauses_def split: prod.splits sum.splits)

lemma printed_except_clauses: "\<exists>ls. printed (snd (except_clauses p r)) = printed (snd r) @ ls"
  by (simp add: except_clauses_def py_print_def split: prod.splits sum.splits)

lemma sent_send_and_report:
  "\<exists>rest. sent (snd (send_and_report cfg lib m ok w))
             = sent w @ telegram_request cfg m (Some ''HTML'') # rest \<and> length rest \<le> 1"
  by (auto simp: send_and_report_def send_telegram_message_def post_def Let_def
           split: outcome.splits prod.splits sum.splits)

lemma printed_send_and_report:
  "\<exists>ls. printed (snd (send_and_report cfg lib m ok w)) = printed w @ ls"
  by (auto simp: send_and_report_def send_telegram_message_def post_def Let_def
           split: outcome.splits prod.splits sum.splits)

subsection \<open>The callback, branch by branch\<close>

lemma on_message_decoded:
  assumes "decode_utf8 (payload msg) = Some p"
  shows "on_message cfg lib t msg w =
           except_clauses p (on_message_try cfg lib t (topic msg) p (announce (topic msg) p w))"
  using assms by (simp add: on_message_def)

text \<open>Once the payload has been decoded, nothing leaves the callback.\<close>

lemma on_message_returns:
  assumes "decode_utf8 (payload msg) = Some p"
  shows "fst (on_message cfg lib t msg w) = Inr ()"
  using assms by (simp add: on_message_def)

lemma on_message_json_decode_error:
  assumes "decode_utf8 (payload msg) = Some p" and "json_loads lib p = None"
  shows "on_message cfg lib t msg w =
           (Inr (), py_print (parse_failure_line p) (announce (topic msg) p w))"
  using assms by (simp add: on_message_def on_message_try_def except_clauses_def)

lemma on_message_not_dict:
  assumes "decode_utf8 (payload msg) = Some p" and "json_loads lib p = Some v"
    and "\<forall>d. v \<noteq> JObj d"
    and "topic msg = mqtt_topic_status cfg \<or> (topic msg = mqtt_topic_alive cfg \<and> monitor_alive cfg)"
  shows "on_message cfg lib t msg w =
           (Inr (), py_print (error_line (quote @ type_name v @ quote @ '' object has no attribute ''
                                          @ quote @ ''get'' @ quote))
                      (announce (topic msg) p w))"
  using assms
  by (cases v) (auto simp: on_message_def on_message_try_def no_attribute_def except_clauses_def)

text \<open>
  The branches that only print. Each is given in full: what happens when its line can be
  encoded, and what happens when the \<^verbatim>\<open>print\<close> raises and line 315 reports it.
\<close>

lemma on_message_unknown_status:
  assumes "decode_utf8 (payload msg) = Some p" and "json_loads lib p = Some (JObj d)"
    and "topic msg = mqtt_topic_status cfg"
    and "dict_get d ''status'' (JStr ''Unknown'') \<noteq> JStr ''offline''"
    and "dict_get d ''status'' (JStr ''Unknown'') \<noteq> JStr ''online'' \<or> \<not> notify_online cfg"
    and "dict_get d ''status'' (JStr ''Unknown'') \<noteq> JStr ''Motion detection confirmed''"
    and "dict_get d ''status'' (JStr ''Unknown'') \<noteq> JStr ''No motion''"
    and "dict_get d ''status'' (JStr ''Unknown'') \<noteq> JStr ''Motion detected''"
    and "unknown_status_line (py_str (py_repr lib) (dict_get d ''status'' (JStr ''Unknown'')))
           (py_str (py_repr lib) (dict_get d ''device_id'' (JStr ''Unknown''))) = line"
  shows "on_message cfg lib t msg w =
           (if encodable line
            then (Inr (), py_print (full_payload_line p) (py_print line (announce (topic msg) p w)))
            else (Inr (), py_print (error_line (encode_error_text lib line))
                            (announce (topic msg) p w)))"
  using assms
  by (auto simp: on_message_def on_message_try_def on_status_def Let_def except_clauses_def)

lemma on_message_no_motion:
  assumes "decode_utf8 (payload msg) = Some p" and "json_loads lib p = Some (JObj d)"
    and "topic msg = mqtt_topic_status cfg"
    and "dict_get d ''status'' (JStr ''Unknown'') = JStr ''No motion''"
    and "no_motion_line (py_str (py_repr lib) (dict_get d ''device_id'' (JStr ''Unknown''))) = line"
  shows "on_message cfg lib t msg w =
           (Inr (), py_print (if encodable line then line
                              else error_line (encode_error_text lib line))
                      (announce (topic msg) p w))"
  using assms
  by (auto simp: on_message_def on_message_try_def on_status_def Let_def except_clauses_def)

lemma on_message_heartbeat:
  assumes "decode_utf8 (payload msg) = Some p" and "json_loads lib p = Some (JObj d)"
    and "topic msg \<noteq> mqtt_topic_status cfg" and "topic msg = mqtt_topic_alive cfg"
    and "monitor_alive cfg"
    and "heartbeat_line (py_str (py_repr lib) (dict_get d ''device_id'' (JStr ''Unknown'')))
           (py_str (py_repr lib) (dict_get d ''uptime_sec'' (JInt 0))) = line"
  shows "on_message cfg lib t msg w =
           (Inr (), py_print (if encodable line then line
                              else error_line (encode_error_text lib line))
                      (announce (topic msg) p w))"
  using assms
  by (auto simp: on_message_def on_message_try_def on_alive_def Let_def except_clauses_def)

text \<open>
  A branch that prints its line and then notifies. When the line can be encoded it
  follows the two of \<open>announce\<close>, and the first request posted is the formatted message;
  at most one more request follows. When it cannot, the \<^verbatim>\<open>print\<close> raises before the
  notification: line 315 reports the error and nothing is posted.
\<close>

lemma notifying_branch:
  assumes "decode_utf8 (payload msg) = Some p"
    and "on_message_try cfg lib t (topic msg) p (announce (topic msg) p w)
           = and_then (print_values lib line (announce (topic msg) p w))
               (send_and_report cfg lib m ok)"
    and "encodable line"
  shows "(\<exists>ls. printed (snd (on_message cfg lib t msg w))
                 = printed (announce (topic msg) p w) @ [line] @ ls)
       \<and> (\<exists>rest. sent (snd (on_message cfg lib t msg w))
                 = sent w @ telegram_request cfg m (Some ''HTML'') # rest \<and> length rest \<le> 1)"
proof -
  let ?w1 = "py_print line (announce (topic msg) p w)"
  have body: "on_message_try cfg lib t (topic msg) p (announce (topic msg) p w)
      = send_and_report cfg lib m ok ?w1"
    using assms(2,3) by simp
  obtain ls1 where p1: "printed (snd (send_and_report cfg lib m ok ?w1)) = printed ?w1 @ ls1"
    using printed_send_and_report by blast
  obtain ls2 where p2: "printed (snd (except_clauses p (send_and_report cfg lib m ok ?w1)))
      = printed (snd (send_and_report cfg lib m ok ?w1)) @ ls2"
    using printed_except_clauses by blast
  obtain rest where s1: "sent (snd (send_and_report cfg lib m ok ?w1))
      = sent ?w1 @ telegram_request cfg m (Some ''HTML'') # rest" and s2: "length rest \<le> 1"
    using sent_send_and_report by blast
  have "printed (snd (on_message cfg lib t msg w))
      = printed (announce (topic msg) p w) @ [line] @ (ls1 @ ls2)"
    unfolding on_message_decoded [OF assms(1)] body p2 p1 by simp
  moreover have "sent (snd (on_message cfg lib t msg w))
      = sent w @ telegram_request cfg m (Some ''HTML'') # rest"
    unfolding on_message_decoded [OF assms(1)] body using s1 by simp
  ultimately show ?thesis using s2 by blast
qed

lemma unprintable_branch:
  assumes "decode_utf8 (payload msg) = Some p"
    and "on_message_try cfg lib t (topic msg) p (announce (topic msg) p w)
           = and_then (print_values lib line (announce (topic msg) p w)) f"
    and "\<not> encodable line"
  shows "on_message cfg lib t msg w
           = (Inr (), py_print (error_line (encode_error_text lib line)) (announce (topic msg) p w))"
  unfolding on_message_decoded [OF assms(1)] assms(2) using assms(3) by simp

lemma on_message_offline:
  assumes "decode_utf8 (payload msg) = Some p" and "json_loads lib p = Some (JObj d)"
    and "topic msg = mqtt_topic_status cfg"
    and "dict_get d ''status'' (JStr ''Unknown'') = JStr ''offline''"
    and "encodable (offline_line (py_str (py_repr lib) (dict_get d ''device_id'' (JStr ''Unknown'')))
                                 (py_str (py_repr lib) (dict_get d ''reason'' (JStr ''unknown''))))"
  shows "(\<exists>ls. printed (snd (on_message cfg lib t msg w))
             = printed (announce (topic msg) p w)
               @ [offline_line (py_str (py_repr lib) (dict_get d ''device_id'' (JStr ''Unknown'')))
                               (py_str (py_repr lib) (dict_get d ''reason'' (JStr ''unknown'')))]
               @ ls)
       \<and> (\<exists>rest. sent (snd (on_message cfg lib t msg w))
             = sent w @ telegram_request cfg
                 (format_offline_message
                    (py_str (py_repr lib) (dict_get d ''device_id'' (JStr ''Unknown'')))
                    (py_str (py_repr lib) (dict_get d ''reason'' (JStr ''unknown''))) t)
                 (Some ''HTML'') # rest
           \<and> length rest \<le> 1)"
  by (rule notifying_branch [OF assms(1) _ assms(5)])
     (use assms(2-4) in \<open>simp add: on_message_try_def on_status_def Let_def\<close>)

lemma on_message_offline_unprintable:
  assumes "decode_utf8 (payload msg) = Some p" and "json_loads lib p = Some (JObj d)"
    and "topic msg = mqtt_topic_status cfg"
    and "dict_get d ''status'' (JStr ''Unknown'') = JStr ''offline''"
    and "offline_line (py_str (py_repr lib) (dict_get d ''device_id'' (JStr ''Unknown'')))
                      (py_str (py_repr lib) (dict_get d ''reason'' (JStr ''unknown''))) = line"
    and "\<not> encodable line"
  shows "on_message cfg lib t msg w
           = (Inr (), py_print (error_line (encode_error_text lib line)) (announce (topic msg) p w))"
  by (rule unprintable_branch [OF assms(1) _ assms(6)])
     (use assms(2-5) in \<open>simp add: on_message_try_def on_status_def Let_def\<close>)

lemma on_message_online:
  assumes "decode_utf8 (payload msg) = Some p" and "json_loads lib p = Some (JObj d)"
    and "topic msg = mqtt_topic_status cfg"
    and "dict_get d ''status'' (JStr ''Unknown'') = JStr ''online''" and "notify_online cfg"
    and "encodable (online_line (py_str (py_repr lib) (dict_get d ''device_id'' (JStr ''Unknown''))))"
  shows "(\<exists>ls. printed (snd (on_message cfg lib t msg w))
             = printed (announce (topic msg) p w)
               @ [online_line (py_str (py_repr lib) (dict_get d ''device_id'' (JStr ''Unknown'')))]
               @ ls)
       \<and> (\<exists>rest. sent (snd (on_message cfg lib t msg w))
             = sent w @ telegram_request cfg
                 (format_online_message
                    (py_str (py_repr lib) (dict_get d ''device_id'' (JStr ''Unknown''))) t)
                 (Some ''HTML'') # rest
           \<and> length rest \<le> 1)"
  by (rule notifying_branch [OF assms(1) _ assms(6)])
     (use assms(2-5) in \<open>simp add: on_message_try_def on_status_def Let_def\<close>)

lemma on_message_motion_confirmed:
  assumes "decode_utf8 (payload msg) = Some p" and "json_loads lib p = Some (JObj d)"
    and "topic msg = mqtt_topic_status cfg"
    and "dict_get d ''status'' (JStr ''Unknown'') = JStr ''Motion detection confirmed''"
    and "encodable (motion_confirmed_line
                      (py_str (py_repr lib) (dict_get d ''device_id'' (JStr ''Unknown''))))"
  shows "(\<exists>ls. printed (snd (on_message cfg lib t msg w))
             = printed (announce (topic msg) p w)
               @ [motion_confirmed_line
                    (py_str (py_repr lib) (dict_get d ''device_id'' (JStr ''Unknown'')))]
               @ ls)
       \<and> (\<exists>rest. sent (snd (on_message cfg lib t msg w))
             = sent w @ telegram_request cfg
                 (motion_confirmed_message
                    (py_str (py_repr lib) (dict_get d ''device_id'' (JStr ''Unknown'')))
                    (py_str (py_repr lib) (dict_get d ''timestamp'' (JStr t))))
                 (Some ''HTML'') # rest
           \<and> length rest \<le> 1)"
  by (rule notifying_branch [OF assms(1) _ assms(5)])
     (use assms(2-4) in \<open>simp add: on_message_try_def on_status_def Let_def\<close>)

lemma on_message_motion_detected:
  assumes "decode_utf8 (payload msg) = Some p" and "json_loads lib p = Some (JObj d)"
    and "topic msg = mqtt_topic_status cfg"
    and "dict_get d ''status'' (JStr ''Unknown'') = JStr ''Motion detected''"
    and "encodable (motion_detected_line
                      (py_str (py_repr lib) (dict_get d ''device_id'' (JStr ''Unknown''))))"
  shows "(\<exists>ls. printed (snd (on_message cfg lib t msg w))
             = printed (announce (topic msg) p w)
               @ [motion_detected_line
                    (py_str (py_repr lib) (dict_get d ''device_id'' (JStr ''Unknown'')))]
               @ ls)
       \<and> (\<exists>rest. sent (snd (on_message cfg lib t msg w))
             = sent w @ telegram_request cfg
                 (motion_detected_message
                    (py_str (py_repr lib) (dict_get d ''device_id'' (JStr ''Unknown'')))
                    (py_str (py_repr lib) (dict_get d ''timestamp'' (JStr t))))
                 (Some ''HTML'') # rest
           \<and> length rest \<le> 1)"
  by (rule notifying_branch [OF assms(1) _ assms(5)])
     (use assms(2-4) in \<open>simp add: on_message_try_def on_status_def Let_def\<close>)

text \<open>The lines of the two \<^verbatim>\<open>except\<close> clauses and of the catch-all differ.\<close>

lemma error_line_neq_parse_failure_line: "error_line e \<noteq> parse_failure_line p"
  by (simp add: error_line_def parse_failure_line_def cross_mark_def warning_sign_def)

lemma error_line_neq_unknown_status_line: "error_line e \<noteq> unknown_status_line s dev"
  by (simp add: error_line_def unknown_status_line_def cross_mark_def warning_sign_def)



text \<open>The examples decode: they are ASCII.\<close>

lemma decode_examples:
  "decode_utf8 offline_payload = Some offline_payload"
  "decode_utf8 online_payload = Some online_payload"
  "decode_utf8 capital_payload = Some capital_payload"
  "decode_utf8 no_status_payload = Some no_status_payload"
  "decode_utf8 no_motion_payload = Some no_motion_payload"
  "decode_utf8 confirmed_payload = Some confirmed_payload"
  "decode_utf8 detected_payload = Some detected_payload"
  "decode_utf8 alive_payload = Some alive_payload"
  "decode_utf8 number_payload = Some number_payload"
  "decode_utf8 gateway_payload = Some gateway_payload"
  "decode_utf8 surrogate_payload = Some surrogate_payload"
  "decode_utf8 surrogate_offline_payload = Some surrogate_offline_payload"
  "decode_utf8 ''not-json'' = Some ''not-json''"
  by code_simp+

text \<open>What the fragment of the parser gives on the examples.\<close>

lemma loads_examples:
  "example_loads offline_payload =
     Some (JObj [(''device_id'', JStr ''sensor1''), (''status'', JStr ''offline''),
                 (''reason'', JStr ''power loss''), (''timestamp'', JStr ''2020-01-01 00:00:00'')])"
  "example_loads online_payload =
     Some (JObj [(''device_id'', JStr ''sensor1''), (''status'', JStr ''online'')])"
  "example_loads capital_payload =
     Some (JObj [(''device_id'', JStr ''x''), (''status'', JStr ''Offline'')])"
  "example_loads no_status_payload = Some (JObj [(''device_id'', JStr ''x'')])"
  "example_loads no_motion_payload =
     Some (JObj [(''device_id'', JStr ''x''), (''status'', JStr ''No motion'')])"
  "example_loads confirmed_payload =
     Some (JObj [(''device_id'', JStr ''cam''), (''status'', JStr ''Motion detection confirmed'')])"
  "example_loads detected_payload =
     Some (JObj [(''device_id'', JStr ''cam''), (''status'', JStr ''Motion detected''),
                 (''timestamp'', JStr ''2024-05-05 11:59:58'')])"
  "example_loads alive_payload =
     Some (JObj [(''device_id'', JStr ''y''), (''rtc_time'', JStr ''12:00:00''),
                 (''uptime_sec'', JInt 3725)])"
  "example_loads number_payload = Some (JInt 42)"
  "example_loads gateway_payload =
     Some (JObj [(''device_id'', JStr ''gw7''), (''status'', JStr ''online'')])"
  "example_loads surrogate_payload = Some (JObj [(''device_id'', JStr lone_surrogate)])"
  "example_loads surrogate_offline_payload =
     Some (JObj [(''device_id'', JStr lone_surrogate), (''status'', JStr ''offline'')])"
  "example_loads ''not-json'' = None"
  by code_simp+

text \<open>With a placeholder credential \<^verbatim>\<open>main\<close> returns before it connects (lines 331 to 339).\<close>

lemma main_placeholder_returns_before_connect:
  assumes "telegram_bot_token cfg = Some ''YOUR_BOT_TOKEN_HERE''
           \<or> telegram_chat_id cfg = Some ''YOUR_CHAT_ID_HERE''"
  shows "connects (snd (main cfg lib arrivals stop_time w)) = connects w
       \<and> fst (main cfg lib arrivals stop_time w) = Inr ()"
  using assms by (auto simp: main_def Let_def banner_def py_print_def)

text \<open>Which of the example lines can be encoded, and the text of the error for the others.\<close>

lemma encodable_examples:
  "encodable (offline_line ''sensor1'' ''power loss'')"
  "encodable (online_line ''sensor1'')"
  "encodable (motion_confirmed_line ''cam'')"
  "encodable (motion_detected_line ''cam'')"
  "encodable (no_motion_line ''x'')"
  "encodable (unknown_status_line ''Offline'' ''x'')"
  "encodable (unknown_status_line ''Unknown'' ''x'')"
  "encodable (unknown_status_line ''online'' ''gw7'')"
  "encodable (unknown_status_line ''online'' ''sensor1'')"
  "encodable (heartbeat_line ''y'' ''3725'')"
  "\<not> encodable (unknown_status_line ''Unknown'' lone_surrogate)"
  "\<not> encodable (offline_line lone_surrogate ''unknown'')"
  by code_simp+

lemma encode_error_examples:
  "encode_error_text (example_lib a) (unknown_status_line ''Unknown'' lone_surrogate)
     = surrogate_error 43"
  "encode_error_text (example_lib a) (offline_line lone_surrogate ''unknown'')
     = surrogate_error 27"
  by (simp_all add: example_lib_def example_encode_error_def)
     (simp add: unknown_status_line_def offline_line_def lone_surrogate_def red_circle_def
        warning_sign_def)

section \<open>The claims\<close>

text \<open>
  C1. A formatted message whose first delivery attempt fails with a
  \<^verbatim>\<open>RequestException\<close> is retried exactly once, with \<^verbatim>\<open>parse_mode\<close> removed and
  the same text (and address and chat); the function then returns whether the retry
  succeeded and raises nothing. When the first attempt succeeds, it is the only one and
  the function returns \<^verbatim>\<open>True\<close>. In every case at most two requests are posted.
\<close>

theorem send_telegram_message_retry:
  assumes "truthy pm"
  shows "(\<forall>m. requests_post lib (length (sent w)) (telegram_request cfg message pm)
                = RequestException m \<longrightarrow>
            sent (snd (send_telegram_message cfg lib message pm w))
              = sent w @ [telegram_request cfg message pm,
                          (telegram_request cfg message pm)\<lparr>parse_mode := None\<rparr>]
          \<and> fst (send_telegram_message cfg lib message pm w)
              = Inr (requests_post lib (Suc (length (sent w)))
                       ((telegram_request cfg message pm)\<lparr>parse_mode := None\<rparr>) = Success))
       \<and> (requests_post lib (length (sent w)) (telegram_request cfg message pm) = Success \<longrightarrow>
            sent (snd (send_telegram_message cfg lib message pm w))
              = sent w @ [telegram_request cfg message pm]
          \<and> fst (send_telegram_message cfg lib message pm w) = Inr True)
       \<and> length (sent (snd (send_telegram_message cfg lib message pm w))) \<le> length (sent w) + 2
       \<and> message_text ((telegram_request cfg message pm)\<lparr>parse_mode := None\<rparr>) = message
       \<and> parse_mode (telegram_request cfg message pm) = pm"
  using assms
  by (auto simp: send_telegram_message_def post_def Let_def py_print_def telegram_request_def
           split: outcome.splits prod.splits)

theorem send_telegram_message_retry_witness:
  "truthy (Some ''HTML'')
   \<and> requests_post (example_lib (RequestException ''timeout'')) (length (sent w0))
        (telegram_request example_cfg ''<b>hello</b>'' (Some ''HTML'')) = RequestException ''timeout''
   \<and> sent (snd (send_telegram_message example_cfg (example_lib (RequestException ''timeout''))
                   ''<b>hello</b>'' (Some ''HTML'') w0))
       = [telegram_request example_cfg ''<b>hello</b>'' (Some ''HTML''),
          (telegram_request example_cfg ''<b>hello</b>'' (Some ''HTML''))\<lparr>parse_mode := None\<rparr>]
   \<and> fst (send_telegram_message example_cfg (example_lib (RequestException ''timeout''))
             ''<b>hello</b>'' (Some ''HTML'') w0) = Inr False
   \<and> requests_post (example_lib Success) (length (sent w0))
        (telegram_request example_cfg ''<b>hello</b>'' (Some ''HTML'')) = Success
   \<and> sent (snd (send_telegram_message example_cfg (example_lib Success)
                   ''<b>hello</b>'' (Some ''HTML'') w0))
       = [telegram_request example_cfg ''<b>hello</b>'' (Some ''HTML'')]
   \<and> fst (send_telegram_message example_cfg (example_lib Success)
             ''<b>hello</b>'' (Some ''HTML'') w0) = Inr True"
proof -
  have h: "truthy (Some ''HTML'')"
    by (simp add: truthy_def)
  show ?thesis
    using h
      send_telegram_message_retry [OF h, of "example_lib (RequestException ''timeout'')" w0
        example_cfg "''<b>hello</b>''"]
      send_telegram_message_retry [OF h, of "example_lib Success" w0 example_cfg "''<b>hello</b>''"]
    by (simp add: example_lib_def w0_def)
qed

text \<open>
  C2, as the code has it. For a payload that parses as a JSON object on the status topic,
  the branch taken is decided by equality of the \<^verbatim>\<open>status\<close> value with the strings
  \<^verbatim>\<open>offline\<close>, \<^verbatim>\<open>Motion detection confirmed\<close>, \<^verbatim>\<open>Motion detected\<close> and \<^verbatim>\<open>No motion\<close>,
  and with \<^verbatim>\<open>online\<close> while \<^verbatim>\<open>NOTIFY_ONLINE\<close> is set. Every value other than these five,
  a string that differs in case or by a character or a value that is not a string,
  reaches the catch-all. Each branch prints its own line after the two of \<open>announce\<close>,
  the catch-all the status as it came and the whole payload, when that line can be
  encoded.
\<close>

theorem on_message_dispatches_on_exact_status:
  assumes "decode_utf8 (payload msg) = Some p"
    and "json_loads lib p = Some (JObj d)"
    and "topic msg = mqtt_topic_status cfg"
    and "dict_get d ''status'' (JStr ''Unknown'') = status"
    and "py_str (py_repr lib) (dict_get d ''device_id'' (JStr ''Unknown'')) = device_id"
    and "py_str (py_repr lib) (dict_get d ''reason'' (JStr ''unknown'')) = reason"
  shows "(status = JStr ''offline'' \<and> encodable (offline_line device_id reason) \<longrightarrow>
            (\<exists>ls. printed (snd (on_message cfg lib t msg w))
               = printed (announce (topic msg) p w) @ [offline_line device_id reason] @ ls))
       \<and> (status = JStr ''online'' \<and> notify_online cfg \<and> encodable (online_line device_id) \<longrightarrow>
            (\<exists>ls. printed (snd (on_message cfg lib t msg w))
               = printed (announce (topic msg) p w) @ [online_line device_id] @ ls))
       \<and> (status = JStr ''Motion detection confirmed''
            \<and> encodable (motion_confirmed_line device_id) \<longrightarrow>
            (\<exists>ls. printed (snd (on_message cfg lib t msg w))
               = printed (announce (topic msg) p w) @ [motion_confirmed_line device_id] @ ls))
       \<and> (status = JStr ''Motion detected'' \<and> encodable (motion_detected_line device_id) \<longrightarrow>
            (\<exists>ls. printed (snd (on_message cfg lib t msg w))
               = printed (announce (topic msg) p w) @ [motion_detected_line device_id] @ ls))
       \<and> (status = JStr ''No motion'' \<and> encodable (no_motion_line device_id) \<longrightarrow>
            on_message cfg lib t msg w
              = (Inr (), py_print (no_motion_line device_id) (announce (topic msg) p w)))
       \<and> (status \<notin> {JStr ''offline'', JStr ''online'', JStr ''Motion detection confirmed'',
                      JStr ''Motion detected'', JStr ''No motion''}
            \<and> encodable (unknown_status_line (py_str (py_repr lib) status) device_id) \<longrightarrow>
            on_message cfg lib t msg w
              = (Inr (), py_print (full_payload_line p)
                           (py_print (unknown_status_line (py_str (py_repr lib) status) device_id)
                              (announce (topic msg) p w))))"
proof (intro conjI impI)
  assume "status = JStr ''offline'' \<and> encodable (offline_line device_id reason)"
  with assms on_message_offline [OF assms(1-3), of t w]
  show "\<exists>ls. printed (snd (on_message cfg lib t msg w))
               = printed (announce (topic msg) p w) @ [offline_line device_id reason] @ ls"
    by simp
next
  assume "status = JStr ''online'' \<and> notify_online cfg \<and> encodable (online_line device_id)"
  with assms on_message_online [OF assms(1-3), of t w]
  show "\<exists>ls. printed (snd (on_message cfg lib t msg w))
               = printed (announce (topic msg) p w) @ [online_line device_id] @ ls"
    by simp
next
  assume "status = JStr ''Motion detection confirmed''
            \<and> encodable (motion_confirmed_line device_id)"
  with assms on_message_motion_confirmed [OF assms(1-3), of t w]
  show "\<exists>ls. printed (snd (on_message cfg lib t msg w))
               = printed (announce (topic msg) p w) @ [motion_confirmed_line device_id] @ ls"
    by simp
next
  assume "status = JStr ''Motion detected'' \<and> encodable (motion_detected_line device_id)"
  with assms on_message_motion_detected [OF assms(1-3), of t w]
  show "\<exists>ls. printed (snd (on_message cfg lib t msg w))
               = printed (announce (topic msg) p w) @ [motion_detected_line device_id] @ ls"
    by simp
next
  assume "status = JStr ''No motion'' \<and> encodable (no_motion_line device_id)"
  with assms on_message_no_motion [OF assms(1-3) _ refl, of t w]
  show "on_message cfg lib t msg w
          = (Inr (), py_print (no_motion_line device_id) (announce (topic msg) p w))"
    by simp
next
  assume "status \<notin> {JStr ''offline'', JStr ''online'', JStr ''Motion detection confirmed'',
                      JStr ''Motion detected'', JStr ''No motion''}
            \<and> encodable (unknown_status_line (py_str (py_repr lib) status) device_id)"
  with assms on_message_unknown_status [OF assms(1-3) _ _ _ _ _ refl, of t w]
  show "on_message cfg lib t msg w
          = (Inr (), py_print (full_payload_line p)
                       (py_print (unknown_status_line (py_str (py_repr lib) status) device_id)
                          (announce (topic msg) p w)))"
    by simp
qed

theorem on_message_dispatches_on_exact_status_witness:
  "decode_utf8 (payload (status_message capital_payload)) = Some capital_payload
   \<and> json_loads (example_lib Success) capital_payload
       = Some (JObj [(''device_id'', JStr ''x''), (''status'', JStr ''Offline'')])
   \<and> topic (status_message capital_payload) = mqtt_topic_status example_cfg
   \<and> JStr ''Offline'' \<notin> {JStr ''offline'', JStr ''online'', JStr ''Motion detection confirmed'',
                            JStr ''Motion detected'', JStr ''No motion''}
   \<and> encodable (unknown_status_line ''Offline'' ''x'')
   \<and> on_message example_cfg (example_lib Success) ''2024-05-05 12:00:00''
        (status_message capital_payload) w0
       = (Inr (), py_print (full_payload_line capital_payload)
                    (py_print (unknown_status_line ''Offline'' ''x'')
                       (announce ''devices/IoT_device_365/status'' capital_payload w0)))
   \<and> decode_utf8 (payload (status_message offline_payload)) = Some offline_payload
   \<and> encodable (offline_line ''sensor1'' ''power loss'')
   \<and> (\<exists>ls. printed (snd (on_message example_cfg (example_lib Success) ''2024-05-05 12:00:00''
                            (status_message offline_payload) w0))
        = printed (announce ''devices/IoT_device_365/status'' offline_payload w0)
          @ [offline_line ''sensor1'' ''power loss''] @ ls)
   \<and> decode_utf8 (payload (status_message online_payload)) = Some online_payload
   \<and> notify_online example_cfg
   \<and> encodable (online_line ''sensor1'')
   \<and> (\<exists>ls. printed (snd (on_message example_cfg (example_lib Success) ''2024-05-05 12:00:00''
                            (status_message online_payload) w0))
        = printed (announce ''devices/IoT_device_365/status'' online_payload w0)
          @ [online_line ''sensor1''] @ ls)"
proof -
  have tp: "topic (status_message q) = mqtt_topic_status example_cfg" for q
    by (simp add: status_message_def example_cfg_def)
  have h1: "decode_utf8 (payload (status_message capital_payload)) = Some capital_payload"
    by (simp add: status_message_def decode_examples)
  have h2: "json_loads (example_lib Success) capital_payload
       = Some (JObj [(''device_id'', JStr ''x''), (''status'', JStr ''Offline'')])"
    by (simp add: example_lib_def loads_examples)
  have g1: "decode_utf8 (payload (status_message offline_payload)) = Some offline_payload"
    by (simp add: status_message_def decode_examples)
  have g2: "json_loads (example_lib Success) offline_payload
       = Some (JObj [(''device_id'', JStr ''sensor1''), (''status'', JStr ''offline''),
                 (''reason'', JStr ''power loss''), (''timestamp'', JStr ''2020-01-01 00:00:00'')])"
    by (simp add: example_lib_def loads_examples)
  have k1: "decode_utf8 (payload (status_message online_payload)) = Some online_payload"
    by (simp add: status_message_def decode_examples)
  have k2: "json_loads (example_lib Success) online_payload
       = Some (JObj [(''device_id'', JStr ''sensor1''), (''status'', JStr ''online'')])"
    by (simp add: example_lib_def loads_examples)
  have fl: "notify_online example_cfg"
    by (simp add: example_cfg_def)
  show ?thesis
    using h1 h2 tp [of capital_payload] g1 k1 fl
      on_message_dispatches_on_exact_status [OF h1 h2 tp refl refl refl,
        of "''2024-05-05 12:00:00''" w0]
      on_message_dispatches_on_exact_status [OF g1 g2 tp refl refl refl,
        of "''2024-05-05 12:00:00''" w0]
      on_message_dispatches_on_exact_status [OF k1 k2 tp refl refl refl,
        of "''2024-05-05 12:00:00''" w0]
    by (simp add: status_message_def py_str_def dict_get_def encodable_examples)
qed

text \<open>
  C2 as stated fails twice. With \<^verbatim>\<open>NOTIFY_ONLINE\<close> clear the status \<^verbatim>\<open>online\<close>, one of
  the five, is not matched and the catch-all prints it. With a device id that holds a
  lone surrogate the status \<^verbatim>\<open>offline\<close> is matched, the \<^verbatim>\<open>print\<close> of line 232 raises,
  and what is printed is the error line of line 315; nothing is posted.
\<close>

theorem dispatch_counterexample:
  "on_message (example_cfg\<lparr>notify_online := False\<rparr>) (example_lib Success) ''2024-05-05 12:00:00''
     (status_message gateway_payload) w0
     = (Inr (), w0\<lparr>printed := [received_line ''devices/IoT_device_365/status'',
                                 payload_line gateway_payload,
                                 unknown_status_line ''online'' ''gw7'',
                                 full_payload_line gateway_payload]\<rparr>)
   \<and> on_message example_cfg (example_lib Success) ''2024-05-05 12:00:00''
       (status_message surrogate_offline_payload) w0
     = (Inr (), w0\<lparr>printed := [received_line ''devices/IoT_device_365/status'',
                                 payload_line surrogate_offline_payload,
                                 error_line (surrogate_error 27)]\<rparr>)"
proof -
  have tp: "topic (status_message q) = mqtt_topic_status example_cfg"
    "topic (status_message q) = mqtt_topic_status (example_cfg\<lparr>notify_online := False\<rparr>)"
    "topic (status_message q) = ''devices/IoT_device_365/status''" for q
    by (simp_all add: status_message_def example_cfg_def)
  have g1: "decode_utf8 (payload (status_message gateway_payload)) = Some gateway_payload"
    by (simp add: status_message_def decode_examples)
  have g2: "json_loads (example_lib Success) gateway_payload
       = Some (JObj [(''device_id'', JStr ''gw7''), (''status'', JStr ''online'')])"
    by (simp add: example_lib_def loads_examples)
  have off: "\<not> notify_online (example_cfg\<lparr>notify_online := False\<rparr>)"
    by simp
  have a: "on_message (example_cfg\<lparr>notify_online := False\<rparr>) (example_lib Success)
             ''2024-05-05 12:00:00'' (status_message gateway_payload) w0
      = (Inr (), py_print (full_payload_line gateway_payload)
                   (py_print (unknown_status_line ''online'' ''gw7'')
                      (announce ''devices/IoT_device_365/status'' gateway_payload w0)))"
    using on_message_unknown_status [OF g1 g2 tp(2) _ _ _ _ _ refl, of "''2024-05-05 12:00:00''" w0]
      off
    by (simp add: dict_get_def py_str_def encodable_examples tp(3))
  have s1: "decode_utf8 (payload (status_message surrogate_offline_payload))
              = Some surrogate_offline_payload"
    by (simp add: status_message_def decode_examples)
  have s2: "json_loads (example_lib Success) surrogate_offline_payload
       = Some (JObj [(''device_id'', JStr lone_surrogate), (''status'', JStr ''offline'')])"
    by (simp add: example_lib_def loads_examples)
  have b: "on_message example_cfg (example_lib Success) ''2024-05-05 12:00:00''
             (status_message surrogate_offline_payload) w0
      = (Inr (), py_print (error_line (surrogate_error 27))
                   (announce ''devices/IoT_device_365/status'' surrogate_offline_payload w0))"
    using on_message_offline_unprintable [OF s1 s2 tp(1) _ refl, of "''2024-05-05 12:00:00''" w0]
    by (simp add: dict_get_def py_str_def encodable_examples encode_error_examples tp(3))
  show ?thesis
    unfolding a b by (simp add: announce_def py_print_def w0_def)
qed

text \<open>
  C3. The claim is that no exception leaves \<^verbatim>\<open>on_message\<close>, whatever the bytes of the
  payload. The decoding at line 216 stands before the \<^verbatim>\<open>try\<close>: on the one-byte payload
  \<^verbatim>\<open>FF\<close>, on any topic, \<^verbatim>\<open>UnicodeDecodeError\<close> leaves the callback before anything is
  printed, leaves \<^verbatim>\<open>loop_forever\<close>, and leaves \<^verbatim>\<open>main\<close>, which catches
  \<^verbatim>\<open>KeyboardInterrupt\<close> only; the offline alert that arrives next is never handled.
\<close>

theorem on_message_raises_on_undecodable_payload:
  "on_message cfg lib t \<lparr>topic = tp, payload = [CHR 0xFF]\<rparr> w = (Inl UnicodeDecodeError, w)
   \<and> loop_forever cfg lib ((t, \<lparr>topic = tp, payload = [CHR 0xFF]\<rparr>) # rest) w
       = (Inl UnicodeDecodeError, w)
   \<and> fst (main example_cfg (example_lib Success)
             [(''2024-05-05 12:00:00'', status_message [CHR 0xFF]),
              (''2024-05-05 12:00:01'', status_message offline_payload)]
             ''2024-05-05 12:00:02'' w0) = Inl UnicodeDecodeError
   \<and> sent (snd (main example_cfg (example_lib Success)
             [(''2024-05-05 12:00:00'', status_message [CHR 0xFF]),
              (''2024-05-05 12:00:01'', status_message offline_payload)]
             ''2024-05-05 12:00:02'' w0)) = []"
proof -
  have d: "decode_utf8 [CHR 0xFF] = None"
    by (simp add: decode_utf8_def)
  have m: "on_message cfg' lib' t' \<lparr>topic = tp', payload = [CHR 0xFF]\<rparr> w'
             = (Inl UnicodeDecodeError, w')" for cfg' lib' t' tp' w'
    by (simp add: on_message_def d)
  show ?thesis
    by (simp add: m main_def Let_def example_cfg_def example_lib_def status_message_def
          banner_def w0_def)
qed

text \<open>
  C4, as the code has it. When the alert is sent (its branch's line could be printed),
  the two motion alerts carry the payload's \<^verbatim>\<open>timestamp\<close> when the payload has one and
  the time of processing otherwise; the offline and the online alert carry the time of
  processing, whatever the payload holds.
\<close>

theorem notification_time_source:
  assumes "decode_utf8 (payload msg) = Some p"
    and "json_loads lib p = Some (JObj d)"
    and "topic msg = mqtt_topic_status cfg"
    and "dict_get d ''status'' (JStr ''Unknown'') = status"
    and "py_str (py_repr lib) (dict_get d ''device_id'' (JStr ''Unknown'')) = device_id"
  shows "(status = JStr ''Motion detection confirmed''
            \<and> encodable (motion_confirmed_line device_id) \<longrightarrow>
            (\<exists>rest. sent (snd (on_message cfg lib t msg w))
               = sent w @ telegram_request cfg
                   (motion_confirmed_message device_id
                      (case map_of d ''timestamp'' of
                         None \<Rightarrow> t | Some v \<Rightarrow> py_str (py_repr lib) v))
                   (Some ''HTML'') # rest))
       \<and> (status = JStr ''Motion detected'' \<and> encodable (motion_detected_line device_id) \<longrightarrow>
            (\<exists>rest. sent (snd (on_message cfg lib t msg w))
               = sent w @ telegram_request cfg
                   (motion_detected_message device_id
                      (case map_of d ''timestamp'' of
                         None \<Rightarrow> t | Some v \<Rightarrow> py_str (py_repr lib) v))
                   (Some ''HTML'') # rest))
       \<and> (status = JStr ''offline''
            \<and> encodable (offline_line device_id
                             (py_str (py_repr lib) (dict_get d ''reason'' (JStr ''unknown'')))) \<longrightarrow>
            (\<exists>rest. sent (snd (on_message cfg lib t msg w))
               = sent w @ telegram_request cfg
                   (format_offline_message device_id
                      (py_str (py_repr lib) (dict_get d ''reason'' (JStr ''unknown''))) t)
                   (Some ''HTML'') # rest))
       \<and> (status = JStr ''online'' \<and> notify_online cfg \<and> encodable (online_line device_id) \<longrightarrow>
            (\<exists>rest. sent (snd (on_message cfg lib t msg w))
               = sent w @ telegram_request cfg (format_online_message device_id t)
                   (Some ''HTML'') # rest))"
proof -
  have ts: "py_str (py_repr lib) (dict_get d ''timestamp'' (JStr t))
      = (case map_of d ''timestamp'' of None \<Rightarrow> t | Some v \<Rightarrow> py_str (py_repr lib) v)"
    by (simp add: dict_get_def py_str_def split: option.splits)
  show ?thesis
  proof (intro conjI impI)
    assume "status = JStr ''Motion detection confirmed''
            \<and> encodable (motion_confirmed_line device_id)"
    with assms on_message_motion_confirmed [OF assms(1-3), of t w]
    show "\<exists>rest. sent (snd (on_message cfg lib t msg w))
               = sent w @ telegram_request cfg
                   (motion_confirmed_message device_id
                      (case map_of d ''timestamp'' of
                         None \<Rightarrow> t | Some v \<Rightarrow> py_str (py_repr lib) v))
                   (Some ''HTML'') # rest"
      unfolding ts by auto
  next
    assume "status = JStr ''Motion detected'' \<and> encodable (motion_detected_line device_id)"
    with assms on_message_motion_detected [OF assms(1-3), of t w]
    show "\<exists>rest. sent (snd (on_message cfg lib t msg w))
               = sent w @ telegram_request cfg
                   (motion_detected_message device_id
                      (case map_of d ''timestamp'' of
                         None \<Rightarrow> t | Some v \<Rightarrow> py_str (py_repr lib) v))
                   (Some ''HTML'') # rest"
      unfolding ts by auto
  next
    assume "status = JStr ''offline''
            \<and> encodable (offline_line device_id
                             (py_str (py_repr lib) (dict_get d ''reason'' (JStr ''unknown''))))"
    with assms on_message_offline [OF assms(1-3), of t w]
    show "\<exists>rest. sent (snd (on_message cfg lib t msg w))
               = sent w @ telegram_request cfg
                   (format_offline_message device_id
                      (py_str (py_repr lib) (dict_get d ''reason'' (JStr ''unknown''))) t)
                   (Some ''HTML'') # rest"
      by auto
  next
    assume "status = JStr ''online'' \<and> notify_online cfg \<and> encodable (online_line device_id)"
    with assms on_message_online [OF assms(1-3), of t w]
    show "\<exists>rest. sent (snd (on_message cfg lib t msg w))
               = sent w @ telegram_request cfg (format_online_message device_id t)
                   (Some ''HTML'') # rest"
      by auto
  qed
qed

theorem notification_time_source_witness:
  "decode_utf8 (payload (status_message detected_payload)) = Some detected_payload
   \<and> json_loads (example_lib Success) detected_payload
       = Some (JObj [(''device_id'', JStr ''cam''), (''status'', JStr ''Motion detected''),
                     (''timestamp'', JStr ''2024-05-05 11:59:58'')])
   \<and> topic (status_message detected_payload) = mqtt_topic_status example_cfg
   \<and> encodable (motion_detected_line ''cam'')
   \<and> encodable (motion_confirmed_line ''cam'')
   \<and> encodable (offline_line ''sensor1'' ''power loss'')
   \<and> encodable (online_line ''sensor1'')
   \<and> (\<exists>rest. sent (snd (on_message example_cfg (example_lib Success) ''2024-05-05 12:00:00''
                              (status_message detected_payload) w0))
         = telegram_request example_cfg
             (motion_detected_message ''cam'' ''2024-05-05 11:59:58'') (Some ''HTML'') # rest)
   \<and> decode_utf8 (payload (status_message confirmed_payload)) = Some confirmed_payload
   \<and> json_loads (example_lib Success) confirmed_payload
       = Some (JObj [(''device_id'', JStr ''cam''), (''status'', JStr ''Motion detection confirmed'')])
   \<and> (\<exists>rest. sent (snd (on_message example_cfg (example_lib Success) ''2024-05-05 12:00:00''
                              (status_message confirmed_payload) w0))
         = telegram_request example_cfg
             (motion_confirmed_message ''cam'' ''2024-05-05 12:00:00'') (Some ''HTML'') # rest)
   \<and> decode_utf8 (payload (status_message offline_payload)) = Some offline_payload
   \<and> (\<exists>rest. sent (snd (on_message example_cfg (example_lib Success) ''2024-05-05 12:00:00''
                              (status_message offline_payload) w0))
         = telegram_request example_cfg
             (format_offline_message ''sensor1'' ''power loss'' ''2024-05-05 12:00:00'')
             (Some ''HTML'') # rest)
   \<and> decode_utf8 (payload (status_message online_payload)) = Some online_payload
   \<and> notify_online example_cfg
   \<and> (\<exists>rest. sent (snd (on_message example_cfg (example_lib Success) ''2024-05-05 12:00:00''
                              (status_message online_payload) w0))
         = telegram_request example_cfg
             (format_online_message ''sensor1'' ''2024-05-05 12:00:00'') (Some ''HTML'') # rest)"
proof -
  have tp: "topic (status_message q) = mqtt_topic_status example_cfg" for q
    by (simp add: status_message_def example_cfg_def)
  have dc: "decode_utf8 (payload (status_message detected_payload)) = Some detected_payload"
    "decode_utf8 (payload (status_message confirmed_payload)) = Some confirmed_payload"
    "decode_utf8 (payload (status_message offline_payload)) = Some offline_payload"
    "decode_utf8 (payload (status_message online_payload)) = Some online_payload"
    by (simp_all add: status_message_def decode_examples)
  have ld: "json_loads (example_lib Success) detected_payload
       = Some (JObj [(''device_id'', JStr ''cam''), (''status'', JStr ''Motion detected''),
                     (''timestamp'', JStr ''2024-05-05 11:59:58'')])"
    "json_loads (example_lib Success) confirmed_payload
       = Some (JObj [(''device_id'', JStr ''cam''), (''status'', JStr ''Motion detection confirmed'')])"
    "json_loads (example_lib Success) offline_payload
       = Some (JObj [(''device_id'', JStr ''sensor1''), (''status'', JStr ''offline''),
                 (''reason'', JStr ''power loss''), (''timestamp'', JStr ''2020-01-01 00:00:00'')])"
    "json_loads (example_lib Success) online_payload
       = Some (JObj [(''device_id'', JStr ''sensor1''), (''status'', JStr ''online'')])"
    by (simp_all add: example_lib_def loads_examples)
  have fl: "notify_online example_cfg"
    by (simp add: example_cfg_def)
  show ?thesis
    using dc ld fl tp [of detected_payload]
      notification_time_source [OF dc(1) ld(1) tp refl refl, of "''2024-05-05 12:00:00''" w0]
      notification_time_source [OF dc(2) ld(2) tp refl refl, of "''2024-05-05 12:00:00''" w0]
      notification_time_source [OF dc(3) ld(3) tp refl refl, of "''2024-05-05 12:00:00''" w0]
      notification_time_source [OF dc(4) ld(4) tp refl refl, of "''2024-05-05 12:00:00''" w0]
    by (simp add: dict_get_def py_str_def w0_def encodable_examples)
qed

text \<open>
  C4 as stated fails: an offline payload with a \<^verbatim>\<open>timestamp\<close> field of 2020 is
  reported with the time of processing, not with the field.
\<close>

theorem offline_timestamp_counterexample:
  "map_of [(''device_id'', JStr ''sensor1''), (''status'', JStr ''offline''),
           (''reason'', JStr ''power loss''), (''timestamp'', JStr ''2020-01-01 00:00:00'')]
     ''timestamp'' = Some (JStr ''2020-01-01 00:00:00'')
   \<and> map message_text
        (sent (snd (on_message example_cfg (example_lib Success) ''2024-05-05 12:00:00''
                      (status_message offline_payload) w0)))
       = [format_offline_message ''sensor1'' ''power loss'' ''2024-05-05 12:00:00'']
   \<and> format_offline_message ''sensor1'' ''power loss'' ''2024-05-05 12:00:00''
       \<noteq> format_offline_message ''sensor1'' ''power loss'' ''2020-01-01 00:00:00''"
proof -
  have "on_message_try example_cfg (example_lib Success) ''2024-05-05 12:00:00''
          (topic (status_message offline_payload)) offline_payload
          (announce (topic (status_message offline_payload)) offline_payload w0)
        = send_and_report example_cfg (example_lib Success)
            (format_offline_message ''sensor1'' ''power loss'' ''2024-05-05 12:00:00'')
            '' Offline notification sent to Telegram''
            (py_print (offline_line ''sensor1'' ''power loss'')
               (announce (topic (status_message offline_payload)) offline_payload w0))"
    by (simp add: on_message_try_def on_status_def Let_def example_lib_def loads_examples
          status_message_def example_cfg_def dict_get_def py_str_def encodable_examples)
  then have "sent (snd (on_message example_cfg (example_lib Success) ''2024-05-05 12:00:00''
                      (status_message offline_payload) w0))
      = [telegram_request example_cfg
           (format_offline_message ''sensor1'' ''power loss'' ''2024-05-05 12:00:00'')
           (Some ''HTML'')]"
    by (simp add: on_message_def status_message_def decode_examples send_and_report_def
          send_telegram_message_def post_def example_lib_def w0_def)
  then show ?thesis
    by (simp add: telegram_request_def format_offline_message_def)
qed

text \<open>
  C5, as the code has it. For a status \<^verbatim>\<open>online\<close>: with \<^verbatim>\<open>NOTIFY_ONLINE\<close> set the
  online branch runs (when its line can be printed, it is printed and the online alert is
  the first request posted, followed by at most the one retry); with the flag clear
  nothing is posted and the callback returns.
\<close>

theorem online_notification_follows_flag:
  assumes "decode_utf8 (payload msg) = Some p"
    and "json_loads lib p = Some (JObj d)"
    and "topic msg = mqtt_topic_status cfg"
    and "dict_get d ''status'' (JStr ''Unknown'') = JStr ''online''"
    and "py_str (py_repr lib) (dict_get d ''device_id'' (JStr ''Unknown'')) = device_id"
  shows "(notify_online cfg \<and> encodable (online_line device_id) \<longrightarrow>
            (\<exists>ls. printed (snd (on_message cfg lib t msg w))
               = printed (announce (topic msg) p w) @ [online_line device_id] @ ls)
          \<and> (\<exists>rest. sent (snd (on_message cfg lib t msg w))
               = sent w @ telegram_request cfg (format_online_message device_id t)
                   (Some ''HTML'') # rest
             \<and> length rest \<le> 1))
       \<and> (\<not> notify_online cfg \<longrightarrow>
            sent (snd (on_message cfg lib t msg w)) = sent w
          \<and> fst (on_message cfg lib t msg w) = Inr ())"
proof (intro conjI impI)
  assume on: "notify_online cfg \<and> encodable (online_line device_id)"
  with on_message_online [OF assms(1-4), of t w] assms(5)
  show "\<exists>ls. printed (snd (on_message cfg lib t msg w))
               = printed (announce (topic msg) p w) @ [online_line device_id] @ ls"
    and "\<exists>rest. sent (snd (on_message cfg lib t msg w))
               = sent w @ telegram_request cfg (format_online_message device_id t)
                   (Some ''HTML'') # rest
             \<and> length rest \<le> 1"
    by simp_all
next
  assume off: "\<not> notify_online cfg"
  from on_message_unknown_status [OF assms(1-3) _ _ _ _ _ refl, of t w] assms(4) off
  show "sent (snd (on_message cfg lib t msg w)) = sent w"
    by simp
next
  show "fst (on_message cfg lib t msg w) = Inr ()"
    by (rule on_message_returns [OF assms(1)])
qed

theorem online_notification_follows_flag_witness:
  "decode_utf8 (payload (status_message online_payload)) = Some online_payload
   \<and> json_loads (example_lib Success) online_payload
       = Some (JObj [(''device_id'', JStr ''sensor1''), (''status'', JStr ''online'')])
   \<and> topic (status_message online_payload) = mqtt_topic_status example_cfg
   \<and> notify_online example_cfg
   \<and> encodable (online_line ''sensor1'')
   \<and> (\<exists>ls. printed (snd (on_message example_cfg (example_lib Success) ''2024-05-05 12:00:00''
                            (status_message online_payload) w0))
         = printed (announce ''devices/IoT_device_365/status'' online_payload w0)
           @ [online_line ''sensor1''] @ ls)
   \<and> (\<exists>rest. sent (snd (on_message example_cfg (example_lib Success) ''2024-05-05 12:00:00''
                              (status_message online_payload) w0))
         = telegram_request example_cfg
             (format_online_message ''sensor1'' ''2024-05-05 12:00:00'') (Some ''HTML'') # rest
       \<and> length rest \<le> 1)
   \<and> \<not> notify_online (example_cfg\<lparr>notify_online := False\<rparr>)
   \<and> sent (snd (on_message (example_cfg\<lparr>notify_online := False\<rparr>) (example_lib Success)
                   ''2024-05-05 12:00:00'' (status_message online_payload) w0)) = []
   \<and> fst (on_message (example_cfg\<lparr>notify_online := False\<rparr>) (example_lib Success)
             ''2024-05-05 12:00:00'' (status_message online_payload) w0) = Inr ()"
proof -
  have dc: "decode_utf8 (payload (status_message online_payload)) = Some online_payload"
    by (simp add: status_message_def decode_examples)
  have ld: "json_loads (example_lib Success) online_payload
       = Some (JObj [(''device_id'', JStr ''sensor1''), (''status'', JStr ''online'')])"
    by (simp add: example_lib_def loads_examples)
  have tp: "topic (status_message online_payload) = mqtt_topic_status example_cfg"
    "topic (status_message online_payload)
       = mqtt_topic_status (example_cfg\<lparr>notify_online := False\<rparr>)"
    by (simp_all add: status_message_def example_cfg_def)
  have st: "dict_get [(''device_id'', JStr ''sensor1''), (''status'', JStr ''online'')] ''status''
              (JStr ''Unknown'') = JStr ''online''"
    by (simp add: dict_get_def)
  have dv: "py_str (py_repr (example_lib Success))
              (dict_get [(''device_id'', JStr ''sensor1''), (''status'', JStr ''online'')]
                 ''device_id'' (JStr ''Unknown'')) = ''sensor1''"
    by (simp add: dict_get_def py_str_def)
  have fl: "notify_online example_cfg" "\<not> notify_online (example_cfg\<lparr>notify_online := False\<rparr>)"
    by (simp_all add: example_cfg_def)
  show ?thesis
    using dc ld tp(1) fl
      online_notification_follows_flag [OF dc ld tp(1) st dv, of "''2024-05-05 12:00:00''" w0]
      online_notification_follows_flag [OF dc ld tp(2) st dv, of "''2024-05-05 12:00:00''" w0]
    by (simp add: status_message_def w0_def encodable_examples)
qed

text \<open>
  C5 as stated fails: with the flag clear, the status \<^verbatim>\<open>online\<close> is not matched by
  line 241 and reaches the catch-all of line 294, which prints it as an unknown status
  with the whole payload.
\<close>

theorem online_flag_off_counterexample:
  "on_message (example_cfg\<lparr>notify_online := False\<rparr>) (example_lib Success) ''2024-05-05 12:00:00''
     (status_message online_payload) w0
   = (Inr (), w0\<lparr>printed := [received_line ''devices/IoT_device_365/status'',
                               payload_line online_payload,
                               unknown_status_line ''online'' ''sensor1'',
                               full_payload_line online_payload]\<rparr>)"
proof -
  have "on_message_try (example_cfg\<lparr>notify_online := False\<rparr>) (example_lib Success)
          ''2024-05-05 12:00:00'' (topic (status_message online_payload)) online_payload
          (announce (topic (status_message online_payload)) online_payload w0)
        = (Inr (), py_print (full_payload_line online_payload)
                     (py_print (unknown_status_line ''online'' ''sensor1'')
                        (announce (topic (status_message online_payload)) online_payload w0)))"
    by (simp add: on_message_try_def on_status_def Let_def example_lib_def loads_examples
          status_message_def example_cfg_def dict_get_def py_str_def encodable_examples)
  then show ?thesis
    by (simp add: on_message_def status_message_def decode_examples except_clauses_def
          announce_def py_print_def w0_def)
qed

text \<open>
  C6. The claim is that every payload that is not JSON is logged and dropped, on any
  topic. For text that \<^verbatim>\<open>json.loads\<close> rejects this is \<open>on_message_json_decode_error\<close>.
  A payload that is not UTF-8 is not JSON either, and it never reaches the parser: the
  bytes \<^verbatim>\<open>caf\<close> followed by \<^verbatim>\<open>C3\<close>, a character cut short, raise
  \<^verbatim>\<open>UnicodeDecodeError\<close> out of the callback with nothing printed.
\<close>

theorem undecodable_payload_is_fatal:
  "decode_utf8 (''caf'' @ [CHR 0xC3]) = None
   \<and> on_message example_cfg (example_lib Success) ''2024-05-05 12:00:00''
        (alive_message (''caf'' @ [CHR 0xC3])) w0 = (Inl UnicodeDecodeError, w0)"
proof -
  have d: "decode_utf8 (''caf'' @ [CHR 0xC3]) = None"
    by (simp add: decode_utf8_def)
  then show ?thesis
    by (simp add: on_message_def alive_message_def)
qed

text \<open>
  C7. Nothing is posted to Telegram for a payload that cannot be decoded or parsed, for the
  status \<^verbatim>\<open>No motion\<close>, for a status outside the five known ones, or for a message on
  the alive topic (with \<^verbatim>\<open>MONITOR_ALIVE\<close> set, as at line 60). What is printed is the
  two lines of \<open>announce\<close> and the branch's own or, when a \<^verbatim>\<open>print\<close> of the branch
  raises on a value it cannot encode, the error line of line 315: in every case the
  event is logged and nothing else is done.
\<close>

theorem log_only_events_send_nothing:
  "(decode_utf8 (payload msg) = None \<longrightarrow>
      sent (snd (on_message cfg lib t msg w)) = sent w)
   \<and> (\<forall>p. decode_utf8 (payload msg) = Some p \<and> json_loads lib p = None \<longrightarrow>
        sent (snd (on_message cfg lib t msg w)) = sent w
      \<and> printed (snd (on_message cfg lib t msg w))
          = printed (announce (topic msg) p w) @ [parse_failure_line p])
   \<and> (\<forall>p d line. decode_utf8 (payload msg) = Some p \<and> json_loads lib p = Some (JObj d)
          \<and> topic msg = mqtt_topic_status cfg
          \<and> dict_get d ''status'' (JStr ''Unknown'') = JStr ''No motion''
          \<and> no_motion_line (py_str (py_repr lib) (dict_get d ''device_id'' (JStr ''Unknown'')))
              = line \<longrightarrow>
        sent (snd (on_message cfg lib t msg w)) = sent w
      \<and> printed (snd (on_message cfg lib t msg w))
          = printed (announce (topic msg) p w)
            @ [if encodable line then line else error_line (encode_error_text lib line)])
   \<and> (\<forall>p d line. decode_utf8 (payload msg) = Some p \<and> json_loads lib p = Some (JObj d)
          \<and> topic msg = mqtt_topic_status cfg
          \<and> dict_get d ''status'' (JStr ''Unknown'')
              \<notin> {JStr ''offline'', JStr ''online'', JStr ''Motion detection confirmed'',
                  JStr ''Motion detected'', JStr ''No motion''}
          \<and> unknown_status_line
               (py_str (py_repr lib) (dict_get d ''status'' (JStr ''Unknown'')))
               (py_str (py_repr lib) (dict_get d ''device_id'' (JStr ''Unknown''))) = line \<longrightarrow>
        sent (snd (on_message cfg lib t msg w)) = sent w
      \<and> printed (snd (on_message cfg lib t msg w))
          = printed (announce (topic msg) p w)
            @ (if encodable line then [line, full_payload_line p]
               else [error_line (encode_error_text lib line)]))
   \<and> (\<forall>p d line. decode_utf8 (payload msg) = Some p \<and> json_loads lib p = Some (JObj d)
          \<and> topic msg \<noteq> mqtt_topic_status cfg \<and> topic msg = mqtt_topic_alive cfg
          \<and> monitor_alive cfg
          \<and> heartbeat_line (py_str (py_repr lib) (dict_get d ''device_id'' (JStr ''Unknown'')))
               (py_str (py_repr lib) (dict_get d ''uptime_sec'' (JInt 0))) = line \<longrightarrow>
        sent (snd (on_message cfg lib t msg w)) = sent w
      \<and> printed (snd (on_message cfg lib t msg w))
          = printed (announce (topic msg) p w)
            @ [if encodable line then line else error_line (encode_error_text lib line)])"
proof (intro conjI allI impI)
  assume "decode_utf8 (payload msg) = None"
  then show "sent (snd (on_message cfg lib t msg w)) = sent w"
    by (simp add: on_message_def)
next
  fix p
  assume a: "decode_utf8 (payload msg) = Some p \<and> json_loads lib p = None"
  then have "on_message cfg lib t msg w
      = (Inr (), py_print (parse_failure_line p) (announce (topic msg) p w))"
    by (intro on_message_json_decode_error) blast+
  then show "sent (snd (on_message cfg lib t msg w)) = sent w"
    and "printed (snd (on_message cfg lib t msg w))
          = printed (announce (topic msg) p w) @ [parse_failure_line p]"
    by simp_all
next
  fix p d line
  assume a: "decode_utf8 (payload msg) = Some p \<and> json_loads lib p = Some (JObj d)
          \<and> topic msg = mqtt_topic_status cfg
          \<and> dict_get d ''status'' (JStr ''Unknown'') = JStr ''No motion''
          \<and> no_motion_line (py_str (py_repr lib) (dict_get d ''device_id'' (JStr ''Unknown'')))
              = line"
  then have "on_message cfg lib t msg w
      = (Inr (), py_print (if encodable line then line
                           else error_line (encode_error_text lib line))
                   (announce (topic msg) p w))"
    by (intro on_message_no_motion) blast+
  then show "sent (snd (on_message cfg lib t msg w)) = sent w"
    and "printed (snd (on_message cfg lib t msg w))
          = printed (announce (topic msg) p w)
            @ [if encodable line then line else error_line (encode_error_text lib line)]"
    by simp_all
next
  fix p d line
  assume a: "decode_utf8 (payload msg) = Some p \<and> json_loads lib p = Some (JObj d)
          \<and> topic msg = mqtt_topic_status cfg
          \<and> dict_get d ''status'' (JStr ''Unknown'')
              \<notin> {JStr ''offline'', JStr ''online'', JStr ''Motion detection confirmed'',
                  JStr ''Motion detected'', JStr ''No motion''}
          \<and> unknown_status_line
               (py_str (py_repr lib) (dict_get d ''status'' (JStr ''Unknown'')))
               (py_str (py_repr lib) (dict_get d ''device_id'' (JStr ''Unknown''))) = line"
  then have "on_message cfg lib t msg w
      = (if encodable line
         then (Inr (), py_print (full_payload_line p) (py_print line (announce (topic msg) p w)))
         else (Inr (), py_print (error_line (encode_error_text lib line))
                         (announce (topic msg) p w)))"
    by (intro on_message_unknown_status) auto
  then show "sent (snd (on_message cfg lib t msg w)) = sent w"
    and "printed (snd (on_message cfg lib t msg w))
          = printed (announce (topic msg) p w)
            @ (if encodable line then [line, full_payload_line p]
               else [error_line (encode_error_text lib line)])"
    by simp_all
next
  fix p d line
  assume a: "decode_utf8 (payload msg) = Some p \<and> json_loads lib p = Some (JObj d)
          \<and> topic msg \<noteq> mqtt_topic_status cfg \<and> topic msg = mqtt_topic_alive cfg
          \<and> monitor_alive cfg
          \<and> heartbeat_line (py_str (py_repr lib) (dict_get d ''device_id'' (JStr ''Unknown'')))
               (py_str (py_repr lib) (dict_get d ''uptime_sec'' (JInt 0))) = line"
  then have "on_message cfg lib t msg w
      = (Inr (), py_print (if encodable line then line
                           else error_line (encode_error_text lib line))
                   (announce (topic msg) p w))"
    by (intro on_message_heartbeat) blast+
  then show "sent (snd (on_message cfg lib t msg w)) = sent w"
    and "printed (snd (on_message cfg lib t msg w))
          = printed (announce (topic msg) p w)
            @ [if encodable line then line else error_line (encode_error_text lib line)]"
    by simp_all
qed

theorem log_only_events_send_nothing_witness:
  "decode_utf8 (payload (status_message [CHR 0xFF])) = None
   \<and> sent (snd (on_message example_cfg (example_lib Success) ''2024-05-05 12:00:00''
                   (status_message [CHR 0xFF]) w0)) = []
   \<and> decode_utf8 (payload (alive_message ''not-json'')) = Some ''not-json''
   \<and> json_loads (example_lib Success) ''not-json'' = None
   \<and> sent (snd (on_message example_cfg (example_lib Success) ''2024-05-05 12:00:00''
                   (alive_message ''not-json'') w0)) = []
   \<and> printed (snd (on_message example_cfg (example_lib Success) ''2024-05-05 12:00:00''
                      (alive_message ''not-json'') w0))
       = [received_line ''devices/IoT_device_365/alive'', payload_line ''not-json'',
          parse_failure_line ''not-json'']
   \<and> decode_utf8 (payload (status_message no_motion_payload)) = Some no_motion_payload
   \<and> json_loads (example_lib Success) no_motion_payload
       = Some (JObj [(''device_id'', JStr ''x''), (''status'', JStr ''No motion'')])
   \<and> encodable (no_motion_line ''x'')
   \<and> sent (snd (on_message example_cfg (example_lib Success) ''2024-05-05 12:00:00''
                   (status_message no_motion_payload) w0)) = []
   \<and> printed (snd (on_message example_cfg (example_lib Success) ''2024-05-05 12:00:00''
                      (status_message no_motion_payload) w0))
       = [received_line ''devices/IoT_device_365/status'', payload_line no_motion_payload,
          no_motion_line ''x'']
   \<and> decode_utf8 (payload (status_message capital_payload)) = Some capital_payload
   \<and> json_loads (example_lib Success) capital_payload
       = Some (JObj [(''device_id'', JStr ''x''), (''status'', JStr ''Offline'')])
   \<and> encodable (unknown_status_line ''Offline'' ''x'')
   \<and> sent (snd (on_message example_cfg (example_lib Success) ''2024-05-05 12:00:00''
                   (status_message capital_payload) w0)) = []
   \<and> printed (snd (on_message example_cfg (example_lib Success) ''2024-05-05 12:00:00''
                      (status_message capital_payload) w0))
       = [received_line ''devices/IoT_device_365/status'', payload_line capital_payload,
          unknown_status_line ''Offline'' ''x'', full_payload_line capital_payload]
   \<and> decode_utf8 (payload (status_message surrogate_payload)) = Some surrogate_payload
   \<and> json_loads (example_lib Success) surrogate_payload
       = Some (JObj [(''device_id'', JStr lone_surrogate)])
   \<and> \<not> encodable (unknown_status_line ''Unknown'' lone_surrogate)
   \<and> sent (snd (on_message example_cfg (example_lib Success) ''2024-05-05 12:00:00''
                   (status_message surrogate_payload) w0)) = []
   \<and> printed (snd (on_message example_cfg (example_lib Success) ''2024-05-05 12:00:00''
                      (status_message surrogate_payload) w0))
       = [received_line ''devices/IoT_device_365/status'', payload_line surrogate_payload,
          error_line (surrogate_error 43)]
   \<and> decode_utf8 (payload (alive_message alive_payload)) = Some alive_payload
   \<and> json_loads (example_lib Success) alive_payload
       = Some (JObj [(''device_id'', JStr ''y''), (''rtc_time'', JStr ''12:00:00''),
                     (''uptime_sec'', JInt 3725)])
   \<and> monitor_alive example_cfg
   \<and> encodable (heartbeat_line ''y'' ''3725'')
   \<and> sent (snd (on_message example_cfg (example_lib Success) ''2024-05-05 12:00:00''
                   (alive_message alive_payload) w0)) = []
   \<and> printed (snd (on_message example_cfg (example_lib Success) ''2024-05-05 12:00:00''
                      (alive_message alive_payload) w0))
       = [received_line ''devices/IoT_device_365/alive'', payload_line alive_payload,
          heartbeat_line ''y'' ''3725'']"
proof -
  let ?on = "\<lambda>m. on_message example_cfg (example_lib Success) ''2024-05-05 12:00:00'' m w0"
  have d0: "decode_utf8 (payload (status_message [CHR 0xFF])) = None"
    by (simp add: status_message_def decode_utf8_def)
  have dc: "decode_utf8 (payload (alive_message ''not-json'')) = Some ''not-json''"
    "decode_utf8 (payload (status_message no_motion_payload)) = Some no_motion_payload"
    "decode_utf8 (payload (status_message capital_payload)) = Some capital_payload"
    "decode_utf8 (payload (status_message surrogate_payload)) = Some surrogate_payload"
    "decode_utf8 (payload (alive_message alive_payload)) = Some alive_payload"
    by (simp_all add: status_message_def alive_message_def decode_examples)
  have ld: "json_loads (example_lib Success) ''not-json'' = None"
    "json_loads (example_lib Success) no_motion_payload
       = Some (JObj [(''device_id'', JStr ''x''), (''status'', JStr ''No motion'')])"
    "json_loads (example_lib Success) capital_payload
       = Some (JObj [(''device_id'', JStr ''x''), (''status'', JStr ''Offline'')])"
    "json_loads (example_lib Success) surrogate_payload
       = Some (JObj [(''device_id'', JStr lone_surrogate)])"
    "json_loads (example_lib Success) alive_payload
       = Some (JObj [(''device_id'', JStr ''y''), (''rtc_time'', JStr ''12:00:00''),
                     (''uptime_sec'', JInt 3725)])"
    by (simp_all add: example_lib_def loads_examples)
  have tp: "topic (status_message q) = mqtt_topic_status example_cfg"
    "topic (alive_message q) \<noteq> mqtt_topic_status example_cfg"
    "topic (alive_message q) = mqtt_topic_alive example_cfg"
    "monitor_alive example_cfg" for q
    by (simp_all add: status_message_def alive_message_def example_cfg_def)
  have nm: "topic (status_message q) = ''devices/IoT_device_365/status''"
    "topic (alive_message q) = ''devices/IoT_device_365/alive''" for q
    by (simp_all add: status_message_def alive_message_def)
  have rp: "py_repr (example_lib Success) (JInt 3725) = ''3725''"
    by code_simp
  have w: "sent w0 = []" "printed w0 = []"
    by (simp_all add: w0_def)
  note inst = log_only_events_send_nothing [of _ example_cfg "example_lib Success"
      "''2024-05-05 12:00:00''" w0]
  have c0: "sent (snd (?on (status_message [CHR 0xFF]))) = []"
    using inst [of "status_message [CHR 0xFF]"] d0 by (simp add: w)
  have c1: "sent (snd (?on (alive_message ''not-json''))) = []
      \<and> printed (snd (?on (alive_message ''not-json'')))
          = [received_line ''devices/IoT_device_365/alive'', payload_line ''not-json'',
             parse_failure_line ''not-json'']"
    using inst [of "alive_message ''not-json''"] dc(1) ld(1)
    by (simp add: w nm printed_announce)
  have c2: "sent (snd (?on (status_message no_motion_payload))) = []
      \<and> printed (snd (?on (status_message no_motion_payload)))
          = [received_line ''devices/IoT_device_365/status'', payload_line no_motion_payload,
             no_motion_line ''x'']"
    using inst [of "status_message no_motion_payload"] dc(2) ld(2) tp(1) [of no_motion_payload]
    by (simp add: w nm printed_announce dict_get_def py_str_def encodable_examples)
  have c3: "sent (snd (?on (status_message capital_payload))) = []
      \<and> printed (snd (?on (status_message capital_payload)))
          = [received_line ''devices/IoT_device_365/status'', payload_line capital_payload,
             unknown_status_line ''Offline'' ''x'', full_payload_line capital_payload]"
    using inst [of "status_message capital_payload"] dc(3) ld(3) tp(1) [of capital_payload]
    by (simp add: w nm printed_announce dict_get_def py_str_def encodable_examples)
  have c4: "sent (snd (?on (status_message surrogate_payload))) = []
      \<and> printed (snd (?on (status_message surrogate_payload)))
          = [received_line ''devices/IoT_device_365/status'', payload_line surrogate_payload,
             error_line (surrogate_error 43)]"
    using inst [of "status_message surrogate_payload"] dc(4) ld(4) tp(1) [of surrogate_payload]
    by (simp add: w nm printed_announce dict_get_def py_str_def encodable_examples
          encode_error_examples)
  have c5: "sent (snd (?on (alive_message alive_payload))) = []
      \<and> printed (snd (?on (alive_message alive_payload)))
          = [received_line ''devices/IoT_device_365/alive'', payload_line alive_payload,
             heartbeat_line ''y'' ''3725'']"
    using inst [of "alive_message alive_payload"] dc(5) ld(5) tp(2,3) [of alive_payload] tp(4)
    by (simp add: w nm printed_announce dict_get_def py_str_def rp encodable_examples)
  show ?thesis
    using d0 dc ld tp(4) c0 c1 c2 c3 c4 c5 by (simp add: encodable_examples)
qed

text \<open>
  C8. The claim is that \<^verbatim>\<open>main\<close> returns without connecting when a credential is unset
  or a placeholder. For the placeholders this is \<open>main_placeholder_returns_before_connect\<close>.
  An unset variable is \<^verbatim>\<open>None\<close> (lines 54 and 55), which equals neither placeholder:
  with both unset \<^verbatim>\<open>main\<close> connects to the broker, and the request it posts at
  shutdown goes to an address built from \<^verbatim>\<open>None\<close>.
\<close>

theorem main_connects_with_unset_credentials:
  "connects (snd (main (example_cfg\<lparr>telegram_bot_token := None, telegram_chat_id := None\<rparr>)
                    (example_lib Success) [] ''2024-05-05 12:00:00'' w0))
     = [(''broker.hivemq.com'', 1883, 60)]
   \<and> map url (sent (snd (main (example_cfg\<lparr>telegram_bot_token := None, telegram_chat_id := None\<rparr>)
                    (example_lib Success) [] ''2024-05-05 12:00:00'' w0)))
     = [''https://api.telegram.org/botNone/sendMessage'']"
  by (simp add: main_def Let_def example_cfg_def example_lib_def banner_def w0_def shutdown_def
        send_telegram_message_def post_def telegram_request_def str_opt_def py_print_def)




text \<open>
  C10. A payload that parses to a value that is not a dict, on the status topic or on the
  alive topic (with \<^verbatim>\<open>MONITOR_ALIVE\<close> set, as at line 60): the first \<^verbatim>\<open>data.get\<close>
  raises \<^verbatim>\<open>AttributeError\<close>, the second \<^verbatim>\<open>except\<close> clause prints it, that line is
  neither the line of the JSON failure nor the line of an unknown status, nothing is
  posted, and the loop goes on with the next message.
\<close>

theorem non_object_json_is_caught:
  assumes "decode_utf8 (payload msg) = Some p"
    and "json_loads lib p = Some v"
    and "\<forall>d. v \<noteq> JObj d"
    and "topic msg = mqtt_topic_status cfg \<or> (topic msg = mqtt_topic_alive cfg \<and> monitor_alive cfg)"
  shows "on_message cfg lib t msg w
           = (Inr (), py_print (error_line (exn_str (no_attribute v ''get'')))
                        (announce (topic msg) p w))
       \<and> on_message_try cfg lib t (topic msg) p (announce (topic msg) p w)
           = (Inl (no_attribute v ''get''), announce (topic msg) p w)
       \<and> sent (snd (on_message cfg lib t msg w)) = sent w
       \<and> error_line (exn_str (no_attribute v ''get'')) \<noteq> parse_failure_line p
       \<and> (\<forall>s dev. error_line (exn_str (no_attribute v ''get'')) \<noteq> unknown_status_line s dev)
       \<and> loop_forever cfg lib ((t, msg) # rest) w
           = loop_forever cfg lib rest
               (py_print (error_line (exn_str (no_attribute v ''get''))) (announce (topic msg) p w))"
proof -
  have om: "on_message cfg lib t msg w
           = (Inr (), py_print (error_line (exn_str (no_attribute v ''get'')))
                        (announce (topic msg) p w))"
    using on_message_not_dict [OF assms, of t w] by (simp add: no_attribute_def)
  have body: "on_message_try cfg lib t (topic msg) p (announce (topic msg) p w)
           = (Inl (no_attribute v ''get''), announce (topic msg) p w)"
    using assms by (cases v) (auto simp: on_message_try_def)
  show ?thesis
    using body
    by (simp add: om error_line_neq_parse_failure_line error_line_neq_unknown_status_line)
qed

theorem non_object_json_is_caught_witness:
  "decode_utf8 (payload (alive_message number_payload)) = Some number_payload
   \<and> json_loads (example_lib Success) number_payload = Some (JInt 42)
   \<and> (\<forall>d. JInt 42 \<noteq> JObj d)
   \<and> topic (alive_message number_payload) = mqtt_topic_alive example_cfg
   \<and> monitor_alive example_cfg
   \<and> on_message example_cfg (example_lib Success) ''2024-05-05 12:00:00''
        (alive_message number_payload) w0
       = (Inr (), py_print (error_line (quote @ ''int'' @ quote @ '' object has no attribute ''
                                        @ quote @ ''get'' @ quote))
                    (announce ''devices/IoT_device_365/alive'' number_payload w0))
   \<and> sent (snd (on_message example_cfg (example_lib Success) ''2024-05-05 12:00:00''
                   (alive_message number_payload) w0)) = []
   \<and> loop_forever example_cfg (example_lib Success)
        [(''2024-05-05 12:00:00'', alive_message number_payload),
         (''2024-05-05 12:00:01'', status_message no_motion_payload)] w0
       = loop_forever example_cfg (example_lib Success)
           [(''2024-05-05 12:00:01'', status_message no_motion_payload)]
           (py_print (error_line (quote @ ''int'' @ quote @ '' object has no attribute ''
                                  @ quote @ ''get'' @ quote))
              (announce ''devices/IoT_device_365/alive'' number_payload w0))"
proof -
  have h1: "decode_utf8 (payload (alive_message number_payload)) = Some number_payload"
    by (simp add: alive_message_def decode_examples)
  have h2: "json_loads (example_lib Success) number_payload = Some (JInt 42)"
    by (simp add: example_lib_def loads_examples)
  have h3: "\<forall>d. JInt 42 \<noteq> JObj d"
    by simp
  have h4: "topic (alive_message number_payload) = mqtt_topic_alive example_cfg"
    "monitor_alive example_cfg"
    by (simp_all add: alive_message_def example_cfg_def)
  have h5: "topic (alive_message number_payload) = mqtt_topic_status example_cfg
            \<or> (topic (alive_message number_payload) = mqtt_topic_alive example_cfg
                \<and> monitor_alive example_cfg)"
    using h4 by simp
  have tp: "topic (alive_message number_payload) = ''devices/IoT_device_365/alive''"
    by (simp add: alive_message_def)
  have s0: "sent w0 = []"
    by (simp add: w0_def)
  show ?thesis
    using h1 h2 h3 h4
      non_object_json_is_caught [OF h1 h2 h3 h5, of "''2024-05-05 12:00:00''" w0
        "[(''2024-05-05 12:00:01'', status_message no_motion_payload)]"]
    by (simp add: tp s0 no_attribute_def)
qed

end
